theory Spec2Isabelle
  imports Main "HOL-Library.Sublist" "HOL-Library.List_Lexorder"
begin

section \<open>Strings\<close>

text \<open>
  A Python \<open>str\<close> is a sequence of Unicode code points; it is modelled as the list of
  these code points. \<open>startswith\<close> is \<^const>\<open>prefix\<close>, \<open>endswith\<close> is
  \<^const>\<open>suffix\<close>, \<open>+\<close> is \<open>@\<close>, and the comparison used by \<open>sorted\<close> is the
  lexicographic order on lists of code points.
  ASCII literals are written through \<open>ascii\<close>; the CJK literals of the source are
  given by their code points.
\<close>

type_synonym pystr = "nat list"

definition ascii :: "string \<Rightarrow> pystr" where
  "ascii s = map of_char s"

text \<open>The three tag prefixes of \<open>AppConfig.tags\<close> (line 39).\<close>

definition tag_standard :: pystr where
  "tag_standard = [12304, 27161, 28310, 12305]"

definition tag_template :: pystr where
  "tag_template = [12304, 31684, 26412, 12305]"

definition tag_review :: pystr where
  "tag_review = [12304, 24453, 23529, 12305]"

record app_config =
  base_path :: pystr
  input_folder :: pystr
  output_folder :: pystr
  tags :: "pystr list"

definition default_config :: "pystr \<Rightarrow> app_config" where
  "default_config base =
     \<lparr>base_path = base, input_folder = ascii ''input'', output_folder = ascii ''output'',
      tags = [tag_standard, tag_template, tag_review]\<rparr>"

section \<open>Utilities (lines 49-63)\<close>

text \<open>
  The character class of \<open>sanitize_filename\<close>: backslash, slash, colon, star, question
  mark, double quote, less, greater, bar.
\<close>

definition forbidden :: "nat \<Rightarrow> bool" where
  "forbidden c = (c \<in> set [92, 47, 58, 42, 63, 34, 60, 62, 124])"

text \<open>
  \<open>re.sub(r'[\\/:*?"<>|]+', "_", name)\<close>: scanning from the left, every maximal run of
  characters of the class (the \<open>+\<close> of the pattern is greedy) is replaced by one
  underscore (code point 95).
\<close>

function sanitize_filename :: "pystr \<Rightarrow> pystr" where
  "sanitize_filename [] = []"
| "sanitize_filename (c # cs) =
     (if forbidden c then 95 # sanitize_filename (dropWhile forbidden cs)
      else c # sanitize_filename cs)"
  by pat_completeness auto
termination
  by (relation "measure length") (auto simp: length_dropWhile_le less_Suc_eq_le)

text \<open>\<open>is_skip_file\<close> (lines 62-63).\<close>

definition is_skip_file :: "pystr \<Rightarrow> bool" where
  "is_skip_file fn =
     (prefix (ascii ''~$'') fn \<or> prefix (ascii ''.'') fn \<or> suffix (ascii ''.tmp'') fn)"

section \<open>The file system as the program sees it\<close>

text \<open>
  A file system gives, for a path, what the program finds there when it follows links
  (as \<open>os.path.exists\<close>, \<open>os.path.isfile\<close> and \<open>os.listdir\<close> do): nothing, something
  that is not a directory, or a directory with its entries. A link whose target is
  missing is listed in its directory, but nothing is found at its path.
  The entries are kept as a list, in the order in which \<open>os.listdir\<close> enumerates them
  (an arbitrary order). An entry is a regular file with its contents (a list of bytes),
  or anything else (a sub-directory, a device, a dangling link, ...).
\<close>

datatype node = RegularFile (contents: "nat list") | NonRegular

type_synonym dir_entries = "(pystr \<times> node) list"

datatype path_state = Absent | NotADirectory | Directory dir_entries

type_synonym filesystem = "pystr \<Rightarrow> path_state"

datatype py_error = NotADirectoryError

text \<open>\<open>os.path.join\<close> for two components (POSIX flavour), separator \<open>/\<close> = 47.\<close>

definition path_join :: "pystr \<Rightarrow> pystr \<Rightarrow> pystr" where
  "path_join a b =
     (if prefix [47] b then b
      else if a = [] \<or> suffix [47] a then a @ b
      else a @ [47] @ b)"

definition project_root :: "app_config \<Rightarrow> pystr \<Rightarrow> pystr \<Rightarrow> pystr" where
  "project_root cfg project delivery = path_join (path_join (base_path cfg) project) delivery"

definition input_dir :: "app_config \<Rightarrow> pystr \<Rightarrow> pystr \<Rightarrow> pystr" where
  "input_dir cfg project delivery = path_join (project_root cfg project delivery) (input_folder cfg)"

definition output_dir :: "app_config \<Rightarrow> pystr \<Rightarrow> pystr \<Rightarrow> pystr" where
  "output_dir cfg project delivery = path_join (project_root cfg project delivery) (output_folder cfg)"

definition path_exists :: "path_state \<Rightarrow> bool" where
  "path_exists p = (p \<noteq> Absent)"

definition listdir :: "dir_entries \<Rightarrow> pystr list" where
  "listdir es = map fst es"

text \<open>\<open>os.path.isfile(os.path.join(folder, f))\<close>.\<close>

definition isfile :: "dir_entries \<Rightarrow> pystr \<Rightarrow> bool" where
  "isfile es f = (case map_of es f of Some (RegularFile _) \<Rightarrow> True | _ \<Rightarrow> False)"

section \<open>FileManager (lines 74-143)\<close>

definition has_tag :: "app_config \<Rightarrow> pystr \<Rightarrow> bool" where
  "has_tag cfg f = list_ex (\<lambda>t. prefix t f) (tags cfg)"

text \<open>
  \<open>list_input_files\<close> (lines 94-108). A path that exists but is not a directory makes
  \<open>os.listdir\<close> raise.
\<close>

definition all_files :: "dir_entries \<Rightarrow> pystr list" where
  "all_files es = filter (\<lambda>f. isfile es f \<and> \<not> is_skip_file f) (listdir es)"

definition list_input_files ::
  "app_config \<Rightarrow> filesystem \<Rightarrow> pystr \<Rightarrow> pystr \<Rightarrow> py_error + (pystr list \<times> pystr list)" where
  "list_input_files cfg fs project delivery =
     (let folder = input_dir cfg project delivery in
      if \<not> path_exists (fs folder) then Inr ([], [])
      else (case fs folder of
              Directory es \<Rightarrow>
                (let tagged = filter (\<lambda>f. has_tag cfg f) (all_files es);
                     untagged = filter (\<lambda>f. \<not> has_tag cfg f) (all_files es)
                 in Inr (sort tagged, sort untagged))
            | _ \<Rightarrow> Inl NotADirectoryError))"

text \<open>The numbers N and M of the catalogue property: the regular-file entries of a
  directory, and those of them whose name satisfies the skip predicate.\<close>

definition regular_entries :: "dir_entries \<Rightarrow> pystr list" where
  "regular_entries es = filter (isfile es) (listdir es)"

definition skipped_entries :: "dir_entries \<Rightarrow> pystr list" where
  "skipped_entries es = filter is_skip_file (regular_entries es)"

text \<open>
  \<open>tag_file\<close> (lines 110-143). The two guards are \<open>os.path.exists\<close> of the joined paths,
  whatever the file name and the tag are. What the program cannot decide by itself is
  given by the environment: the file sizes sampled by the stability wait (\<open>None\<close> when
  \<open>os.path.getsize\<close> raises) and the outcome of \<open>os.rename\<close>.
\<close>

datatype rename_outcome = RenameOk | RenamePermissionError | RenameOtherError pystr

record tag_env =
  size_samples :: "nat \<Rightarrow> nat option \<times> nat option"
  rename_result :: rename_outcome

datatype log_event = LogInfo pystr | LogError pystr

record tag_result =
  fs_after :: filesystem
  logged :: "log_event list"
  sleeps :: nat
  ok :: bool
  message :: pystr

definition msg_not_found :: pystr where
  "msg_not_found = [27284, 26696, 19981, 23384, 22312]"

definition msg_conflict :: pystr where
  "msg_conflict = [30446, 27161, 27284, 21517, 24050, 23384, 22312]"

definition msg_busy :: pystr where
  "msg_busy = [27284, 26696, 34987, 20308, 29992, 65292, 35531, 38364, 38281, 24460, 20877, 35430]"

definition log_tagged :: "pystr \<Rightarrow> pystr \<Rightarrow> pystr" where
  "log_tagged filename new_filename =
     [10003, 32, 27161, 35352, 23436, 25104, 65306] @ filename @ [32, 8594, 32] @ new_filename"

definition log_tag_failed :: "pystr \<Rightarrow> pystr" where
  "log_tag_failed e = [27161, 35352, 22833, 25943, 65306] @ e"

text \<open>
  The stability wait (lines 125-133): at most the given number of rounds; a round
  samples the size twice with a sleep between, and stops the loop when both samples are
  equal; a failing sample costs one more sleep. The result is the number of sleeps of
  0.1 s.
\<close>

fun stability_wait :: "nat \<Rightarrow> (nat \<Rightarrow> nat option \<times> nat option) \<Rightarrow> nat \<Rightarrow> nat" where
  "stability_wait 0 samples i = 0"
| "stability_wait (Suc k) samples i =
     (case samples i of
        (None, _) \<Rightarrow> 1 + stability_wait k samples (Suc i)
      | (Some s1, None) \<Rightarrow> 2 + stability_wait k samples (Suc i)
      | (Some s1, Some s2) \<Rightarrow>
          (if s1 = s2 then 1 else 1 + stability_wait k samples (Suc i)))"

text \<open>
  A successful \<open>os.rename\<close> of \<open>directory/filename\<close> to \<open>directory/new_filename\<close>: what
  was found at the old path is found at the new one and nothing at the old one; in the
  listing of the directory the entry takes the new name, in place of an entry that had
  it (a dangling link, since the guard found nothing there).
\<close>

definition rename_entry :: "pystr \<Rightarrow> pystr \<Rightarrow> path_state \<Rightarrow> path_state" where
  "rename_entry old new p =
     (case p of
        Directory es \<Rightarrow>
          Directory (map (\<lambda>(n, x). if n = old then (new, x) else (n, x))
                       (filter (\<lambda>(n, x). n \<noteq> new) es))
      | _ \<Rightarrow> p)"

definition os_rename :: "pystr \<Rightarrow> pystr \<Rightarrow> pystr \<Rightarrow> filesystem \<Rightarrow> filesystem" where
  "os_rename directory filename new_filename fs =
     (fs(directory := rename_entry filename new_filename (fs directory)))
       (path_join directory filename := Absent,
        path_join directory new_filename := fs (path_join directory filename))"

definition tag_file ::
  "app_config \<Rightarrow> tag_env \<Rightarrow> filesystem \<Rightarrow> pystr \<Rightarrow> pystr \<Rightarrow> pystr \<Rightarrow> pystr \<Rightarrow> tag_result" where
  "tag_file cfg env fs project delivery filename tag =
     (let directory = input_dir cfg project delivery;
          old_path = path_join directory filename;
          new_filename = tag @ filename;
          new_path = path_join directory new_filename
      in if \<not> path_exists (fs old_path) then
           \<lparr>fs_after = fs, logged = [], sleeps = 0, ok = False, message = msg_not_found\<rparr>
         else if path_exists (fs new_path) then
           \<lparr>fs_after = fs, logged = [], sleeps = 0, ok = False, message = msg_conflict\<rparr>
         else
           (let slept = stability_wait 5 (size_samples env) 0 in
            case rename_result env of
              RenameOk \<Rightarrow>
                \<lparr>fs_after = os_rename directory filename new_filename fs,
                 logged = [LogInfo (log_tagged filename new_filename)],
                 sleeps = slept, ok = True, message = new_filename\<rparr>
            | RenamePermissionError \<Rightarrow>
                \<lparr>fs_after = fs, logged = [], sleeps = slept, ok = False, message = msg_busy\<rparr>
            | RenameOtherError e \<Rightarrow>
                \<lparr>fs_after = fs, logged = [LogError (log_tag_failed e)],
                 sleeps = slept, ok = False, message = e\<rparr>))"

section \<open>Export names (lines 49-60, 158-161)\<close>

text \<open>
  \<open>time.strftime("%Y%m%d_%H%M%S")\<close> applied to the local time. The fields are those of
  \<open>struct_time\<close>; the model renders a year with four digits and the other fields with
  two, which is what \<open>strftime\<close> does for the values of \<open>valid_time\<close>.
\<close>

record struct_time =
  tm_year :: nat
  tm_mon :: nat
  tm_mday :: nat
  tm_hour :: nat
  tm_min :: nat
  tm_sec :: nat

definition valid_time :: "struct_time \<Rightarrow> bool" where
  "valid_time t =
     (1000 \<le> tm_year t \<and> tm_year t \<le> 9999 \<and> 1 \<le> tm_mon t \<and> tm_mon t \<le> 12
      \<and> 1 \<le> tm_mday t \<and> tm_mday t \<le> 31 \<and> tm_hour t \<le> 23 \<and> tm_min t \<le> 59
      \<and> tm_sec t \<le> 61)"

definition digit :: "nat \<Rightarrow> nat" where
  "digit d = 48 + d mod 10"

definition pad2 :: "nat \<Rightarrow> pystr" where
  "pad2 n = [digit (n div 10), digit n]"

definition pad4 :: "nat \<Rightarrow> pystr" where
  "pad4 n = [digit (n div 1000), digit (n div 100), digit (n div 10), digit n]"

definition now_ts :: "struct_time \<Rightarrow> pystr" where
  "now_ts t =
     pad4 (tm_year t) @ pad2 (tm_mon t) @ pad2 (tm_mday t) @ [95]
     @ pad2 (tm_hour t) @ pad2 (tm_min t) @ pad2 (tm_sec t)"

definition export_filename :: "pystr \<Rightarrow> struct_time \<Rightarrow> pystr" where
  "export_filename source_filename t =
     ascii ''Review_'' @ sanitize_filename source_filename @ ascii ''_'' @ now_ts t
     @ ascii ''.docx''"

definition export_path :: "pystr \<Rightarrow> pystr \<Rightarrow> struct_time \<Rightarrow> pystr" where
  "export_path out_dir source_filename t = path_join out_dir (export_filename source_filename t)"

text \<open>\<open>os.path.basename\<close> (POSIX flavour): what follows the last separator.\<close>

definition basename :: "pystr \<Rightarrow> pystr" where
  "basename p = rev (takeWhile (\<lambda>c. c \<noteq> 47) (rev p))"

text \<open>The timestamp shape \<open>YYYYMMDD_HHMMSS\<close>: eight digits, an underscore, six digits.\<close>

definition is_digit :: "nat \<Rightarrow> bool" where
  "is_digit c = (48 \<le> c \<and> c \<le> 57)"

definition timestamp_form :: "pystr \<Rightarrow> bool" where
  "timestamp_form ts =
     (length ts = 15 \<and> list_all is_digit (take 8 ts) \<and> ts ! 8 = 95
      \<and> list_all is_digit (drop 9 ts))"

text \<open>
  The sanitisation as the specification words it: each occurrence of one of the nine
  characters becomes an underscore.
\<close>

definition sanitize_each_occurrence :: "pystr \<Rightarrow> pystr" where
  "sanitize_each_occurrence name = map (\<lambda>c. if forbidden c then 95 else c) name"

section \<open>The refresh debounce (lines 1182-1189) and the watcher's handler (lines 204-220)\<close>

text \<open>
  The part of the application that the refresh timer lives in: the clock of the UI loop
  (in ms), the counter from which Tk draws the identifiers of \<open>after\<close>, the pending
  timers whose callback is \<open>_run_refresh\<close> (identifier and due time, in the order of their
  creation), the field \<open>_refresh_job\<close>, and the times at which \<open>refresh_all\<close> has run. The
  other timers of the application (clipboard poll, notification clearing) neither read
  nor write any of this. Calls are taken one after the other.
\<close>

record scheduler =
  now :: nat
  next_id :: nat
  pending :: "(nat \<times> nat) list"
  refresh_job :: "nat option"
  refreshes :: "nat list"

definition init_scheduler :: scheduler where
  "init_scheduler = \<lparr>now = 0, next_id = 0, pending = [], refresh_job = None, refreshes = []\<rparr>"

text \<open>\<open>self.after(delay_ms, self._run_refresh)\<close>: the new identifier and the new state.\<close>

definition after :: "nat \<Rightarrow> scheduler \<Rightarrow> nat \<times> scheduler" where
  "after delay_ms s =
     (next_id s,
      s\<lparr>next_id := Suc (next_id s), pending := pending s @ [(next_id s, now s + delay_ms)]\<rparr>)"

definition after_cancel :: "nat \<Rightarrow> scheduler \<Rightarrow> scheduler" where
  "after_cancel j s = s\<lparr>pending := filter (\<lambda>p. fst p \<noteq> j) (pending s)\<rparr>"

text \<open>An identifier of Tk is a non-empty string, so \<open>if self._refresh_job\<close> tests for
  \<open>None\<close>.\<close>

definition schedule_refresh :: "nat \<Rightarrow> scheduler \<Rightarrow> scheduler" where
  "schedule_refresh delay_ms s =
     (let s1 = (case refresh_job s of Some j \<Rightarrow> after_cancel j s | None \<Rightarrow> s);
          (j, s2) = after delay_ms s1
      in s2\<lparr>refresh_job := Some j\<rparr>)"

text \<open>\<open>_run_refresh\<close>; the run of \<open>refresh_all\<close> is recorded with its time.\<close>

definition run_refresh :: "scheduler \<Rightarrow> scheduler" where
  "run_refresh s = s\<lparr>refresh_job := None, refreshes := refreshes s @ [now s]\<rparr>"

text \<open>
  The UI loop up to time \<open>t\<close>: the timers due by then fire in the order of their due
  times (creation order among equals); a timer that fires leaves the queue, and the
  clock stands at its due time. \<open>_run_refresh\<close> creates and cancels no timer, so the
  timers to fire are those pending at the start.
\<close>

fun fire_all :: "(nat \<times> nat) list \<Rightarrow> scheduler \<Rightarrow> scheduler" where
  "fire_all [] s = s"
| "fire_all ((j, due) # ts) s =
     fire_all ts
       (run_refresh (s\<lparr>now := max (now s) due,
                      pending := filter (\<lambda>p. fst p \<noteq> j) (pending s)\<rparr>))"

definition advance :: "nat \<Rightarrow> scheduler \<Rightarrow> scheduler" where
  "advance t s =
     (let s' = fire_all (sort_key snd (filter (\<lambda>p. snd p \<le> t) (pending s))) s
      in s'\<lparr>now := max (now s') t\<rparr>)"

text \<open>A history of the scheduler: time passing and refresh requests.\<close>

datatype action = Advance nat | Request nat

fun exec :: "action list \<Rightarrow> scheduler \<Rightarrow> scheduler" where
  "exec [] s = s"
| "exec (Advance t # as) s = exec as (advance t s)"
| "exec (Request d # as) s = exec as (schedule_refresh d s)"




text \<open>The events of the watcher (watchdog's \<open>FileSystemEvent\<close>).\<close>

record fs_event =
  is_directory :: bool
  src_path :: pystr

definition on_modified :: "fs_event \<Rightarrow> scheduler \<Rightarrow> scheduler" where
  "on_modified event s =
     (if is_directory event then s
      else let filename = basename (src_path event) in
           if is_skip_file filename then s
           else schedule_refresh 300 s)"

definition on_moved :: "fs_event \<Rightarrow> scheduler \<Rightarrow> scheduler" where
  "on_moved event s = (if is_directory event then s else schedule_refresh 300 s)"

definition on_deleted :: "fs_event \<Rightarrow> scheduler \<Rightarrow> scheduler" where
  "on_deleted event s = (if is_directory event then s else schedule_refresh 300 s)"

text \<open>In a state of the scheduler, \<open>_refresh_job\<close> names the one pending timer, if any.\<close>

definition one_pending :: "scheduler \<Rightarrow> bool" where
  "one_pending s = (case refresh_job s of
             None \<Rightarrow> pending s = []
           | Some j \<Rightarrow> (\<exists>due. pending s = [(j, due)] \<and> now s \<le> due))"

section \<open>The window: review target, prompt, clipboard monitor (lines 1006-1180)\<close>

text \<open>
  The widgets and fields of the window that these methods touch. What the window does
  to the outside (dialogs, notifications, log lines, the exporter, timers of the UI
  loop) is recorded in order in \<open>effects\<close>; \<open>ExportContentCall\<close> records a call of
  \<open>_export_content\<close>, \<open>WordExport\<close> a call of the exporter with output directory, source
  name and content.
\<close>

datatype callback = PollClipboard | ClearNotification

datatype effect =
    Notification pystr
  | WarningDialog pystr pystr
  | ErrorDialog pystr pystr
  | LogErrorLine pystr
  | ExportContentCall pystr
  | WordExport pystr pystr pystr
  | OpenFolderOf pystr
  | AfterCall nat nat callback
  | AfterCancel nat

record window =
  current_project :: pystr
  current_delivery :: pystr
  combo_review :: pystr
  combo_values :: "pystr list"
  combo_enabled :: bool
  prompt_display :: pystr
  reply_display :: pystr
  clipboard_auto :: bool
  last_clipboard :: "pystr option"
  clipboard_job :: "nat option"
  after_counter :: nat
  effects :: "effect list"

text \<open>The sentinel of the review selector, \<open>"(\<dots>)"\<close> around the character for "none".\<close>

definition none_sentinel :: pystr where
  "none_sentinel = [40, 28961, 41]"

definition msg_reminder :: pystr where
  "msg_reminder = [25552, 37266]"

definition msg_error :: pystr where
  "msg_error = [37679, 35492]"

definition msg_no_review :: pystr where
  "msg_no_review = [27794, 26377, 24453, 23529, 27284, 26696]"

definition note_prompt_done :: pystr where
  "note_prompt_done = [10003, 32, 25552, 31034, 35422, 24050, 29983, 25104]"

definition msg_reply_empty :: pystr where
  "msg_reply_empty = [22238, 35206, 20839, 23481, 26159, 31354, 30340]"

definition msg_no_target :: pystr where
  "msg_no_target = [27794, 26377, 36984, 25799, 24453, 23529, 27284, 26696]"

definition note_select_target :: pystr where
  "note_select_target = [9888, 32, 35531, 20808, 36984, 25799, 24453, 23529, 27284, 26696]"

definition note_exported :: pystr where
  "note_exported = [10003, 32, 87, 111, 114, 100, 32, 24050, 36664, 20986, 65306]"

definition msg_export_failed :: pystr where
  "msg_export_failed = [87, 111, 114, 100, 32, 36664, 20986, 22833, 25943]"

definition note_watch_on :: pystr where
  "note_watch_on = [10003, 32, 24050, 21855, 29992, 21098, 36028, 31807, 30435, 32893]"

definition note_watch_off :: pystr where
  "note_watch_off = [10003, 32, 24050, 20572, 27490, 21098, 36028, 31807, 30435, 32893]"

definition add_effect :: "effect \<Rightarrow> window \<Rightarrow> window" where
  "add_effect e w = w\<lparr>effects := effects w @ [e]\<rparr>"

text \<open>\<open>show_notification\<close> (lines 1149-1152): the text, and the timer that clears it.\<close>

definition show_notification :: "pystr \<Rightarrow> window \<Rightarrow> window" where
  "show_notification msg w =
     w\<lparr>after_counter := Suc (after_counter w),
       effects := effects w @ [Notification msg, AfterCall (after_counter w) 3000 ClearNotification]\<rparr>"

text \<open>\<open>refresh_review_combo\<close> (lines 1006-1018), called with the tagged list.\<close>

definition refresh_review_combo :: "pystr list \<Rightarrow> window \<Rightarrow> window" where
  "refresh_review_combo tagged w =
     (case filter (prefix tag_review) tagged of
        r # rs \<Rightarrow> w\<lparr>combo_values := r # rs, combo_enabled := True, combo_review := r\<rparr>
      | [] \<Rightarrow> w\<lparr>combo_values := [none_sentinel], combo_enabled := False,
               combo_review := none_sentinel\<rparr>)"

subsection \<open>The prompt (lines 1036-1067)\<close>

fun py_join :: "pystr \<Rightarrow> pystr list \<Rightarrow> pystr" where
  "py_join sep [] = []"
| "py_join sep [x] = x"
| "py_join sep (x # y # ys) = x @ sep @ py_join sep (y # ys)"

definition bullet :: "pystr \<Rightarrow> pystr" where
  "bullet x = ascii ''- '' @ x"

definition prompt_head :: pystr where
  "prompt_head =
     [35531, 20197, 12304, 27161, 28310, 12305, 33287, 12304, 31684, 26412, 12305, 20316,
      28858, 20381, 25818, 65292, 36880, 26781, 23529, 26597, 12304, 24453, 23529, 12305,
      25991, 20214, 65306]"

text \<open>The four requested outputs: deviations, risks, concrete suggestions, items that
  need human confirmation.\<close>

definition checklist :: pystr where
  "checklist =
     [10, 10, 35531, 36664, 20986, 65306, 10]
     @ ascii ''1) '' @ [19981, 31526, 21512, 20043, 34389, 10]
     @ ascii ''2) '' @ [39080, 38570, 10]
     @ ascii ''3) '' @ [20855, 39636, 20462, 25913, 24314, 35696, 10]
     @ ascii ''4) '' @ [38656, 20154, 24037, 30906, 35469, 20107, 38917, 10]"

text \<open>\<open>xs or ["(\<dots>)"]\<close>: the placeholder stands for an empty list.\<close>

definition or_none :: "pystr list \<Rightarrow> pystr list" where
  "or_none xs = (if xs = [] then [none_sentinel] else xs)"

text \<open>
  Lines 1046-1063: the test of the target and the text of the prompt; \<open>None\<close> is the
  early return.
\<close>

definition build_prompt :: "pystr list \<Rightarrow> pystr list \<Rightarrow> pystr \<Rightarrow> pystr option" where
  "build_prompt std tpl tgt =
     (if tgt = none_sentinel then None
      else Some (prompt_head @ tgt @ [10, 10] @ tag_standard @ [10]
                 @ py_join [10] (map bullet (or_none std))
                 @ [10, 10] @ tag_template @ [10]
                 @ py_join [10] (map bullet (or_none tpl))
                 @ checklist))"

definition generate_prompt :: "app_config \<Rightarrow> filesystem \<Rightarrow> window \<Rightarrow> py_error + window" where
  "generate_prompt cfg fs w =
     (case list_input_files cfg fs (current_project w) (current_delivery w) of
        Inl e \<Rightarrow> Inl e
      | Inr (tagged, untagged) \<Rightarrow>
          (let w1 = refresh_review_combo tagged w;
               std = filter (prefix tag_standard) tagged;
               tpl = filter (prefix tag_template) tagged;
               tgt = combo_review w1
           in case build_prompt std tpl tgt of
                None \<Rightarrow> Inr (add_effect (WarningDialog msg_reminder msg_no_review) w1)
              | Some prompt \<Rightarrow>
                  Inr (show_notification note_prompt_done (w1\<lparr>prompt_display := prompt\<rparr>))))"

subsection \<open>The clipboard monitor (lines 1087-1180)\<close>

text \<open>What \<open>clipboard_get\<close> gives: an error of Tk, something that is not a string, or a
  text.\<close>

datatype clipboard_read = ClipTclError | ClipNotStr | ClipText pystr

text \<open>The characters that \<open>str.strip()\<close> removes: those for which \<open>str.isspace\<close> holds.\<close>

definition py_isspace :: "nat \<Rightarrow> bool" where
  "py_isspace c =
     (c \<in> set [9, 10, 11, 12, 13, 28, 29, 30, 31, 32, 133, 160, 5760, 8192, 8193, 8194, 8195,
               8196, 8197, 8198, 8199, 8200, 8201, 8202, 8232, 8233, 8239, 8287, 12288])"

definition py_strip :: "pystr \<Rightarrow> pystr" where
  "py_strip t = rev (dropWhile py_isspace (rev (dropWhile py_isspace t)))"

definition get_clipboard_text :: "clipboard_read \<Rightarrow> pystr" where
  "get_clipboard_text c =
     (case c of ClipTclError \<Rightarrow> [] | ClipNotStr \<Rightarrow> [] | ClipText t \<Rightarrow> py_strip t)"

definition set_reply_text :: "pystr \<Rightarrow> window \<Rightarrow> window" where
  "set_reply_text t w = w\<lparr>reply_display := t\<rparr>"

text \<open>
  What a poll finds outside the window: the clipboard, whether the exporter saves the
  document or raises (with the text of the exception), and the local time.
\<close>

datatype export_outcome = ExportSaved | ExportRaised pystr

record poll_env =
  clipboard :: clipboard_read
  export_result :: export_outcome
  clock :: struct_time

text \<open>\<open>_export_content\<close> (lines 1114-1147).\<close>

definition export_content ::
  "app_config \<Rightarrow> poll_env \<Rightarrow> pystr \<Rightarrow> bool \<Rightarrow> bool \<Rightarrow> window \<Rightarrow> bool \<times> window" where
  "export_content cfg env content open_dir show_error_dialog w0 =
     (let w = add_effect (ExportContentCall content) w0;
          tgt = combo_review w
      in if content = [] then
           (False, if show_error_dialog then add_effect (WarningDialog msg_reminder msg_reply_empty) w
                   else show_notification ([9888, 32] @ msg_reply_empty) w)
         else if tgt = none_sentinel then
           (False, if show_error_dialog then add_effect (WarningDialog msg_reminder msg_no_target) w
                   else show_notification note_select_target w)
         else
           (let out = output_dir cfg (current_project w) (current_delivery w);
                w1 = add_effect (WordExport out tgt content) w
            in case export_result env of
                 ExportSaved \<Rightarrow>
                   (let path = export_path out tgt (clock env);
                        w2 = show_notification (note_exported @ basename path) w1
                    in (True, if open_dir then add_effect (OpenFolderOf path) w2 else w2))
               | ExportRaised e \<Rightarrow>
                   (let w2 = add_effect (LogErrorLine (msg_export_failed @ [65306] @ e)) w1
                    in (False,
                        if show_error_dialog
                        then add_effect (ErrorDialog msg_error (msg_export_failed @ [65306] @ e)) w2
                        else show_notification ([9888, 32] @ msg_export_failed) w2))))"

text \<open>\<open>_schedule_clipboard_poll\<close> (lines 1165-1169); the poll interval is 700 ms.\<close>

definition clipboard_poll_ms :: nat where
  "clipboard_poll_ms = 700"

definition schedule_clipboard_poll :: "bool \<Rightarrow> window \<Rightarrow> window" where
  "schedule_clipboard_poll immediate w =
     (let w1 = (case clipboard_job w of Some j \<Rightarrow> add_effect (AfterCancel j) w | None \<Rightarrow> w);
          delay = (if immediate then 10 else clipboard_poll_ms)
      in w1\<lparr>clipboard_job := Some (after_counter w1),
            after_counter := Suc (after_counter w1),
            effects := effects w1 @ [AfterCall (after_counter w1) delay PollClipboard]\<rparr>)"

text \<open>\<open>toggle_clipboard_watch\<close> (lines 1154-1163), run after the check box has changed.\<close>

definition toggle_clipboard_watch :: "window \<Rightarrow> window" where
  "toggle_clipboard_watch w =
     (if clipboard_auto w then
        schedule_clipboard_poll True (show_notification note_watch_on (w\<lparr>last_clipboard := None\<rparr>))
      else
        show_notification note_watch_off
          (case clipboard_job w of
             Some j \<Rightarrow> (add_effect (AfterCancel j) w)\<lparr>clipboard_job := None\<rparr>
           | None \<Rightarrow> w))"

text \<open>\<open>_poll_clipboard\<close> (lines 1171-1180).\<close>

definition poll_clipboard :: "app_config \<Rightarrow> poll_env \<Rightarrow> window \<Rightarrow> window" where
  "poll_clipboard cfg env w0 =
     (let w = w0\<lparr>clipboard_job := None\<rparr> in
      if \<not> clipboard_auto w then w
      else
        (let content = get_clipboard_text (clipboard env);
             w1 = (if content \<noteq> [] \<and> Some content \<noteq> last_clipboard w
                   then snd (export_content cfg env content False False
                          (set_reply_text content (w\<lparr>last_clipboard := Some content\<rparr>)))
                   else w)
         in schedule_clipboard_poll False w1))"

text \<open>The contents handed to \<open>_export_content\<close> so far, in order.\<close>

fun export_calls_in :: "effect list \<Rightarrow> pystr list" where
  "export_calls_in [] = []"
| "export_calls_in (ExportContentCall c # es) = c # export_calls_in es"
| "export_calls_in (e # es) = export_calls_in es"

definition export_calls :: "window \<Rightarrow> pystr list" where
  "export_calls w = export_calls_in (effects w)"

text \<open>The text that a poll reads from the clipboard, as \<open>_get_clipboard_text\<close> returns
  it (stripped of surrounding white space, empty when there is no text).\<close>

definition observed :: "poll_env \<Rightarrow> pystr" where
  "observed env = get_clipboard_text (clipboard env)"

text \<open>
  What happens to the monitor over time: the poll timer fires, or the user flips the
  check box (to the given value), which runs \<open>toggle_clipboard_watch\<close>.
\<close>

datatype monitor_action = PollTick poll_env | Toggle bool

fun run_actions :: "app_config \<Rightarrow> monitor_action list \<Rightarrow> window \<Rightarrow> window" where
  "run_actions cfg [] w = w"
| "run_actions cfg (PollTick e # as) w = run_actions cfg as (poll_clipboard cfg e w)"
| "run_actions cfg (Toggle b # as) w =
     run_actions cfg as (toggle_clipboard_watch (w\<lparr>clipboard_auto := b\<rparr>))"

text \<open>An action of one armed period in which the clipboard keeps giving the text \<open>c\<close>: a
  poll that reads \<open>c\<close>, or the check box being cleared.\<close>

fun keeps :: "pystr \<Rightarrow> monitor_action \<Rightarrow> bool" where
  "keeps c (PollTick e) = (observed e = c)"
| "keeps c (Toggle b) = (\<not> b)"

section \<open>Concrete inputs\<close>

definition example_cfg :: app_config where
  "example_cfg = default_config (ascii ''/base'')"

definition example_dir :: pystr where
  "example_dir = ascii ''/base/p/d/input''"

definition example_fs :: "dir_entries \<Rightarrow> filesystem" where
  "example_fs es = (\<lambda>_. Absent)(example_dir := Directory es)"

definition example_entries :: dir_entries where
  "example_entries =
     [(ascii ''b.txt'', RegularFile [1]),
      (tag_standard @ ascii ''a.txt'', RegularFile [2, 3]),
      (ascii ''~$b.txt'', RegularFile []),
      (ascii ''sub'', NonRegular),
      (ascii ''a.txt'', RegularFile [4])]"

text \<open>The files of the given names are found in the directory, and the directory
  itself is found under its path followed by a separator, or by a separator and a dot.\<close>

definition with_files :: "pystr \<Rightarrow> pystr list \<Rightarrow> filesystem \<Rightarrow> filesystem" where
  "with_files dir names fs =
     (\<lambda>p. if p \<in> set (map (path_join dir) names) then NotADirectory
          else if p = path_join dir [] \<or> p = path_join dir [46] then fs dir
          else fs p)"

text \<open>An input directory that holds the review copy of \<open>a.txt\<close> and no \<open>a.txt\<close>.\<close>

definition conflict_entries :: dir_entries where
  "conflict_entries = [(tag_review @ ascii ''a.txt'', RegularFile [7])]"

definition conflict_fs :: filesystem where
  "conflict_fs =
     with_files example_dir [tag_review @ ascii ''a.txt''] (example_fs conflict_entries)"

text \<open>An input directory that holds \<open>a.txt\<close> and its copy tagged as a standard.\<close>

definition both_entries :: dir_entries where
  "both_entries =
     [(ascii ''a.txt'', RegularFile [4]), (tag_standard @ ascii ''a.txt'', RegularFile [2, 3])]"

definition both_fs :: filesystem where
  "both_fs =
     with_files example_dir [ascii ''a.txt'', tag_standard @ ascii ''a.txt'']
       (example_fs both_entries)"

text \<open>An input directory that holds one file, already tagged as a standard.\<close>

definition tagged_entries :: dir_entries where
  "tagged_entries = [(tag_standard @ ascii ''a.txt'', RegularFile [7])]"

definition tagged_fs :: filesystem where
  "tagged_fs =
     with_files example_dir [tag_standard @ ascii ''a.txt''] (example_fs tagged_entries)"

text \<open>An input directory that holds \<open>a.txt\<close> and a dangling link under the review name.\<close>

definition dangling_entries :: dir_entries where
  "dangling_entries =
     [(ascii ''a.txt'', RegularFile [4]), (tag_review @ ascii ''a.txt'', NonRegular)]"

definition dangling_fs :: filesystem where
  "dangling_fs = with_files example_dir [ascii ''a.txt''] (example_fs dangling_entries)"

definition example_env :: tag_env where
  "example_env = \<lparr>size_samples = (\<lambda>_. (Some 1, Some 1)), rename_result = RenameOk\<rparr>"

definition example_time :: struct_time where
  "example_time = \<lparr>tm_year = 2024, tm_mon = 3, tm_mday = 9, tm_hour = 7, tm_min = 5, tm_sec = 0\<rparr>"


definition modified_lock_file :: fs_event where
  "modified_lock_file = \<lparr>is_directory = False, src_path = ascii ''/base/p/d/input/~$a.docx''\<rparr>"

definition modified_document :: fs_event where
  "modified_document = \<lparr>is_directory = False, src_path = ascii ''/base/p/d/input/a.docx''\<rparr>"

definition example_window :: window where
  "example_window =
     \<lparr>current_project = ascii ''p'', current_delivery = ascii ''d'',
      combo_review = tag_review @ ascii ''r.pdf'', combo_values = [tag_review @ ascii ''r.pdf''],
      combo_enabled = True, prompt_display = [], reply_display = [],
      clipboard_auto = True, last_clipboard = None, clipboard_job = None,
      after_counter = 0, effects = []\<rparr>"

definition poll_of :: "string \<Rightarrow> export_outcome \<Rightarrow> poll_env" where
  "poll_of text outcome =
     \<lparr>clipboard = ClipText (ascii text), export_result = outcome, clock = example_time\<rparr>"


definition failing_poll :: poll_env where
  "failing_poll = poll_of '' A '' (ExportRaised (ascii ''disk full''))"

definition prompt_entries :: dir_entries where
  "prompt_entries =
     [(tag_standard @ ascii ''s.pdf'', RegularFile [2]),
      (tag_review @ ascii ''r.pdf'', RegularFile [1])]"

definition review_entries :: dir_entries where
  "review_entries = [(tag_review @ ascii ''r.pdf'', RegularFile [1])]"

section \<open>Properties of the file catalogue\<close>

lemma length_all_files:
  "length (all_files es) = length (regular_entries es) - length (skipped_entries es)"
proof -
  have "all_files es = filter (\<lambda>f. \<not> is_skip_file f) (regular_entries es)"
    by (simp add: all_files_def regular_entries_def conj_commute)
  moreover have "length (filter is_skip_file (regular_entries es))
      + length (filter (\<lambda>f. \<not> is_skip_file f) (regular_entries es)) = length (regular_entries es)"
    by (rule sum_length_filter_compl)
  ultimately show ?thesis
    by (simp add: skipped_entries_def)
qed

lemma list_input_files_Directory:
  "fs (input_dir cfg project delivery) = Directory es \<Longrightarrow>
   list_input_files cfg fs project delivery =
     Inr (sort (filter (has_tag cfg) (all_files es)),
          sort (filter (\<lambda>f. \<not> has_tag cfg f) (all_files es)))"
  by (simp add: list_input_files_def path_exists_def)

text \<open>
  C1. For an existing input directory with N regular-file entries of which M satisfy the
  skip predicate, \<open>list_input_files\<close> returns a pair (tagged, untagged) of combined
  length N - M; the tagged list holds exactly the listed names (regular files that are
  not skipped) that start with a configured tag prefix, the untagged list exactly the
  other listed names; no name is in both; each list is in ascending lexical order.
\<close>

theorem list_input_files_catalog:
  assumes "fs (input_dir cfg project delivery) = Directory es"
  shows "\<exists>tagged untagged.
           list_input_files cfg fs project delivery = Inr (tagged, untagged)
         \<and> length tagged + length untagged
             = length (regular_entries es) - length (skipped_entries es)
         \<and> set tagged
             = {f \<in> set (listdir es). isfile es f \<and> \<not> is_skip_file f \<and> has_tag cfg f}
         \<and> set untagged
             = {f \<in> set (listdir es). isfile es f \<and> \<not> is_skip_file f \<and> \<not> has_tag cfg f}
         \<and> set tagged \<inter> set untagged = {}
         \<and> sorted tagged \<and> sorted untagged"
proof -
  let ?t = "sort (filter (has_tag cfg) (all_files es))"
  let ?u = "sort (filter (\<lambda>f. \<not> has_tag cfg f) (all_files es))"
  have r: "list_input_files cfg fs project delivery = Inr (?t, ?u)"
    using assms by (rule list_input_files_Directory)
  have "length ?t + length ?u = length (all_files es)"
    by (simp add: sum_length_filter_compl)
  then have len: "length ?t + length ?u
      = length (regular_entries es) - length (skipped_entries es)"
    by (simp add: length_all_files)
  have st: "set ?t
      = {f \<in> set (listdir es). isfile es f \<and> \<not> is_skip_file f \<and> has_tag cfg f}"
    by (auto simp: all_files_def)
  have su: "set ?u
      = {f \<in> set (listdir es). isfile es f \<and> \<not> is_skip_file f \<and> \<not> has_tag cfg f}"
    by (auto simp: all_files_def)
  have dj: "set ?t \<inter> set ?u = {}"
    by auto
  show ?thesis
    using r len st su dj by (intro exI conjI) (assumption | simp)+
qed

lemma example_input_dir:
  "input_dir example_cfg (ascii ''p'') (ascii ''d'') = example_dir"
  by (simp add: input_dir_def project_root_def path_join_def example_cfg_def
      default_config_def example_dir_def ascii_def suffix_to_prefix)

lemma example_fs_lookup:
  "example_fs es (input_dir example_cfg (ascii ''p'') (ascii ''d'')) = Directory es"
  by (simp add: example_input_dir example_fs_def)

lemma example_tags: "tags example_cfg = [tag_standard, tag_template, tag_review]"
  by (simp add: example_cfg_def default_config_def)

theorem list_input_files_catalog_witness:
  "example_fs example_entries (input_dir example_cfg (ascii ''p'') (ascii ''d''))
     = Directory example_entries
   \<and> (\<exists>tagged untagged.
         list_input_files example_cfg (example_fs example_entries) (ascii ''p'') (ascii ''d'')
           = Inr (tagged, untagged)
       \<and> length tagged + length untagged
           = length (regular_entries example_entries) - length (skipped_entries example_entries)
       \<and> set tagged
           = {f \<in> set (listdir example_entries).
                isfile example_entries f \<and> \<not> is_skip_file f \<and> has_tag example_cfg f}
       \<and> set untagged
           = {f \<in> set (listdir example_entries).
                isfile example_entries f \<and> \<not> is_skip_file f \<and> \<not> has_tag example_cfg f}
       \<and> set tagged \<inter> set untagged = {}
       \<and> sorted tagged \<and> sorted untagged)"
proof -
  have h: "example_fs example_entries (input_dir example_cfg (ascii ''p'') (ascii ''d''))
      = Directory example_entries"
    by (rule example_fs_lookup)
  show ?thesis
    using h list_input_files_catalog [where fs = "example_fs example_entries"
        and cfg = example_cfg and project = "ascii ''p''" and delivery = "ascii ''d''"
        and es = example_entries]
    by simp
qed

text \<open>
  C8. When the input directory does not exist, \<open>list_input_files\<close> returns two empty
  lists and raises nothing.
\<close>

theorem list_input_files_absent:
  "list_input_files cfg (fs(input_dir cfg project delivery := Absent)) project delivery
     = Inr ([], [])"
  by (simp add: list_input_files_def path_exists_def)

section \<open>Properties of the tagger\<close>

lemma example_join:
  "\<not> prefix [47] n \<Longrightarrow> path_join example_dir n = example_dir @ 47 # n"
  by (simp add: path_join_def example_dir_def ascii_def suffix_to_prefix)

lemma with_files_at:
  assumes "\<not> prefix [47] n" and "\<forall>m\<in>set names. \<not> prefix [47] m"
  shows "with_files example_dir names (example_fs es)
           (path_join (input_dir example_cfg (ascii ''p'') (ascii ''d'')) n)
         = (if n \<in> set names then NotADirectory
            else if n = [] \<or> n = [46] then Directory es else Absent)"
proof -
  have "path_join example_dir m = example_dir @ 47 # m" if "m \<in> set names" for m
    using that assms(2) by (simp add: example_join)
  then have "map (path_join example_dir) names = map (\<lambda>m. example_dir @ 47 # m) names"
    by simp
  then have "(example_dir @ 47 # n \<in> set (map (path_join example_dir) names)) = (n \<in> set names)"
    by auto
  then show ?thesis
    using assms(1) by (simp add: with_files_def example_input_dir example_join example_fs_def)
qed

lemma example_names:
  "\<not> prefix [47] (ascii ''a.txt'')"
  "\<not> prefix [47] (tag_standard @ x)"
  "\<not> prefix [47] (tag_review @ x)"
  "ascii ''a.txt'' \<noteq> tag_standard @ x"
  "ascii ''a.txt'' \<noteq> tag_review @ x"
  "tag_review @ x \<noteq> tag_standard @ y"
  "tag_standard \<noteq> []"
  "tag_review \<noteq> []"
  "ascii ''a.txt'' \<noteq> []" "ascii ''a.txt'' \<noteq> [46]"
  "tag_standard @ x \<noteq> [46]" "tag_review @ x \<noteq> [46]"
  by (simp_all add: tag_standard_def tag_review_def ascii_def)

lemma example_wait: "stability_wait 5 (size_samples example_env) 0 = 1"
  by (simp add: example_env_def eval_nat_numeral)

lemma conflict_fs_at:
  "\<not> prefix [47] n \<Longrightarrow>
   conflict_fs (path_join (input_dir example_cfg (ascii ''p'') (ascii ''d'')) n)
     = (if n = tag_review @ ascii ''a.txt'' then NotADirectory
        else if n = [] \<or> n = [46] then Directory conflict_entries else Absent)"
  unfolding conflict_fs_def by (simp add: with_files_at example_names)

lemma both_fs_at:
  "\<not> prefix [47] n \<Longrightarrow>
   both_fs (path_join (input_dir example_cfg (ascii ''p'') (ascii ''d'')) n)
     = (if n = ascii ''a.txt'' \<or> n = tag_standard @ ascii ''a.txt'' then NotADirectory
        else if n = [] \<or> n = [46] then Directory both_entries else Absent)"
  unfolding both_fs_def by (simp add: with_files_at example_names)

lemma tagged_fs_at:
  "\<not> prefix [47] n \<Longrightarrow>
   tagged_fs (path_join (input_dir example_cfg (ascii ''p'') (ascii ''d'')) n)
     = (if n = tag_standard @ ascii ''a.txt'' then NotADirectory
        else if n = [] \<or> n = [46] then Directory tagged_entries else Absent)"
  unfolding tagged_fs_def by (simp add: with_files_at example_names)

lemma dangling_fs_at:
  "\<not> prefix [47] n \<Longrightarrow>
   dangling_fs (path_join (input_dir example_cfg (ascii ''p'') (ascii ''d'')) n)
     = (if n = ascii ''a.txt'' then NotADirectory
        else if n = [] \<or> n = [46] then Directory dangling_entries else Absent)"
  unfolding dangling_fs_def by (simp add: with_files_at example_names)

text \<open>
  C2, as stated: in every directory state in which the tag-prefixed destination name
  exists, \<open>tag_file\<close> fails with the Conflict message. This fails when the source file is
  missing: the existence of the source is tested first, and the message is then the
  NotFound one. Here the directory holds only the destination name.
\<close>

theorem tag_file_conflict_counterexample:
  "path_exists (conflict_fs
      (path_join (input_dir example_cfg (ascii ''p'') (ascii ''d''))
         (tag_review @ ascii ''a.txt'')))
   \<and> message (tag_file example_cfg example_env conflict_fs
        (ascii ''p'') (ascii ''d'') (ascii ''a.txt'') tag_review)
       = [27284, 26696, 19981, 23384, 22312]
   \<and> [27284, 26696, 19981, 23384, 22312]
       \<noteq> [30446, 27161, 27284, 21517, 24050, 23384, (22312::nat)]"
  by (simp add: tag_file_def Let_def conflict_fs_at example_names path_exists_def
      msg_not_found_def)

text \<open>
  C2, amended: in every directory state in which the tag-prefixed destination name
  exists, \<open>tag_file\<close> fails and leaves the file system unchanged (nothing is renamed,
  deleted or overwritten, nothing is logged, the stability wait is not entered); the
  message is the Conflict one when the source file exists, and the NotFound one when
  it does not.
\<close>

theorem tag_file_destination_exists:
  assumes "path_exists (fs (path_join (input_dir cfg project delivery) (tag @ filename)))"
  shows "tag_file cfg env fs project delivery filename tag =
           \<lparr>fs_after = fs, logged = [], sleeps = 0, ok = False,
            message =
              (if path_exists (fs (path_join (input_dir cfg project delivery) filename))
               then [30446, 27161, 27284, 21517, 24050, 23384, 22312]
               else [27284, 26696, 19981, 23384, 22312])\<rparr>"
  using assms by (simp add: tag_file_def Let_def msg_conflict_def msg_not_found_def)

theorem tag_file_destination_exists_witness:
  "path_exists (both_fs
      (path_join (input_dir example_cfg (ascii ''p'') (ascii ''d''))
         (tag_standard @ ascii ''a.txt'')))
   \<and> tag_file example_cfg example_env both_fs
        (ascii ''p'') (ascii ''d'') (ascii ''a.txt'') tag_standard
     = \<lparr>fs_after = both_fs, logged = [], sleeps = 0, ok = False,
        message = [30446, 27161, 27284, 21517, 24050, 23384, 22312]\<rparr>"
proof -
  have h: "path_exists (both_fs
      (path_join (input_dir example_cfg (ascii ''p'') (ascii ''d''))
         (tag_standard @ ascii ''a.txt'')))"
    by (simp add: both_fs_at example_names path_exists_def)
  have src: "path_exists (both_fs
      (path_join (input_dir example_cfg (ascii ''p'') (ascii ''d'')) (ascii ''a.txt'')))"
    by (simp add: both_fs_at example_names path_exists_def)
  show ?thesis
    using h src tag_file_destination_exists [where fs = both_fs
        and cfg = example_cfg and project = "ascii ''p''" and delivery = "ascii ''d''"
        and tag = tag_standard and filename = "ascii ''a.txt''" and env = example_env]
    by simp
qed

lemma os_rename_found:
  "os_rename directory filename new_filename fs (path_join directory new_filename)
     = fs (path_join directory filename)"
  by (simp add: os_rename_def)

text \<open>
  C9. \<open>tag_file\<close> never looks at the tags of the source name: the recognised tags play no
  part in the call, which succeeds exactly when something is found at the source path,
  nothing at the destination path, and the rename goes through. A successful call
  returns the new tag prepended to the whole existing name, and that name is found
  afterwards; when the existing name already starts with a prefix \<open>t\<close>, the result starts
  with the new tag followed by \<open>t\<close>.
\<close>

theorem tag_file_success:
  "(ok (tag_file cfg env fs project delivery filename tag) \<longleftrightarrow>
      path_exists (fs (path_join (input_dir cfg project delivery) filename))
    \<and> \<not> path_exists (fs (path_join (input_dir cfg project delivery) (tag @ filename)))
    \<and> rename_result env = RenameOk)
   \<and> (ok (tag_file cfg env fs project delivery filename tag) \<longrightarrow>
        message (tag_file cfg env fs project delivery filename tag) = tag @ filename
      \<and> path_exists (fs_after (tag_file cfg env fs project delivery filename tag)
           (path_join (input_dir cfg project delivery) (tag @ filename)))
      \<and> (\<forall>t rest. filename = t @ rest \<longrightarrow>
            message (tag_file cfg env fs project delivery filename tag) = tag @ t @ rest))
   \<and> (\<forall>ts. tag_file (cfg\<lparr>tags := ts\<rparr>) env fs project delivery filename tag
            = tag_file cfg env fs project delivery filename tag)"
proof (intro conjI)
  show "ok (tag_file cfg env fs project delivery filename tag) \<longleftrightarrow>
      path_exists (fs (path_join (input_dir cfg project delivery) filename))
    \<and> \<not> path_exists (fs (path_join (input_dir cfg project delivery) (tag @ filename)))
    \<and> rename_result env = RenameOk"
    by (simp add: tag_file_def Let_def split: rename_outcome.splits)
  show "ok (tag_file cfg env fs project delivery filename tag) \<longrightarrow>
        message (tag_file cfg env fs project delivery filename tag) = tag @ filename
      \<and> path_exists (fs_after (tag_file cfg env fs project delivery filename tag)
           (path_join (input_dir cfg project delivery) (tag @ filename)))
      \<and> (\<forall>t rest. filename = t @ rest \<longrightarrow>
            message (tag_file cfg env fs project delivery filename tag) = tag @ t @ rest)"
    by (auto simp: tag_file_def Let_def os_rename_found split: rename_outcome.splits)
  show "\<forall>ts. tag_file (cfg\<lparr>tags := ts\<rparr>) env fs project delivery filename tag
            = tag_file cfg env fs project delivery filename tag"
    by (simp add: tag_file_def input_dir_def project_root_def)
qed

lemma tag_tagged_file_ok:
  "ok (tag_file example_cfg example_env tagged_fs
        (ascii ''p'') (ascii ''d'') (tag_standard @ ascii ''a.txt'') tag_review)"
  by (simp add: tag_file_def Let_def tagged_fs_at example_names example_names(6) [symmetric]
      path_exists_def example_env_def)

theorem tag_file_success_witness:
  "has_tag example_cfg (tag_standard @ ascii ''a.txt'')
   \<and> ok (tag_file example_cfg example_env tagged_fs
        (ascii ''p'') (ascii ''d'') (tag_standard @ ascii ''a.txt'') tag_review)
   \<and> message (tag_file example_cfg example_env tagged_fs
        (ascii ''p'') (ascii ''d'') (tag_standard @ ascii ''a.txt'') tag_review)
     = [12304, 24453, 23529, 12305, 12304, 27161, 28310, 12305, 97, 46, 116, 120, 116]
   \<and> path_exists (fs_after (tag_file example_cfg example_env tagged_fs
        (ascii ''p'') (ascii ''d'') (tag_standard @ ascii ''a.txt'') tag_review)
          (path_join (input_dir example_cfg (ascii ''p'') (ascii ''d''))
             (tag_review @ tag_standard @ ascii ''a.txt'')))"
proof -
  have tagged: "has_tag example_cfg (tag_standard @ ascii ''a.txt'')"
    by (simp add: has_tag_def example_tags)
  have name: "tag_review @ tag_standard @ ascii ''a.txt''
      = [12304, 24453, 23529, 12305, 12304, 27161, 28310, 12305, 97, 46, 116, 120, 116]"
    by (simp add: tag_review_def tag_standard_def ascii_def)
  show ?thesis
    using tagged tag_tagged_file_ok name
      tag_file_success [where fs = tagged_fs
        and cfg = example_cfg and project = "ascii ''p''" and delivery = "ascii ''d''"
        and tag = tag_review and filename = "tag_standard @ ascii ''a.txt''"
        and env = example_env]
    by simp
qed

text \<open>
  An empty file name addresses the directory itself, which exists: with the tag-prefixed
  name present the answer is the Conflict one.
\<close>

lemma tag_file_empty_name:
  "message (tag_file example_cfg example_env conflict_fs
      (ascii ''p'') (ascii ''d'') [] (tag_review @ ascii ''a.txt''))
     = [30446, 27161, 27284, 21517, 24050, 23384, 22312]"
  by (simp add: tag_file_def Let_def conflict_fs_at example_names path_exists_def
      msg_conflict_def)

text \<open>
  A dangling link under the destination name does not stop the call: nothing is found
  at the destination path, and the rename replaces the link.
\<close>

lemma dangling_listing:
  "rename_entry (ascii ''a.txt'') (tag_review @ ascii ''a.txt'') (Directory dangling_entries)
     = Directory [(tag_review @ ascii ''a.txt'', RegularFile [4])]"
  by (simp add: rename_entry_def dangling_entries_def example_names)

lemma tag_file_over_dangling_link:
  "tag_file example_cfg example_env dangling_fs
        (ascii ''p'') (ascii ''d'') (ascii ''a.txt'') tag_review
     = \<lparr>fs_after = os_rename (input_dir example_cfg (ascii ''p'') (ascii ''d''))
                     (ascii ''a.txt'') (tag_review @ ascii ''a.txt'') dangling_fs,
        logged = [LogInfo (log_tagged (ascii ''a.txt'') (tag_review @ ascii ''a.txt''))],
        sleeps = 1, ok = True, message = tag_review @ ascii ''a.txt''\<rparr>"
  by (simp add: tag_file_def Let_def dangling_fs_at example_names path_exists_def
      example_wait)
    (simp add: example_env_def)

section \<open>Properties of the export name\<close>

lemma not_forbidden_underscore: "\<not> forbidden 95"
  by (simp add: forbidden_def)

lemma sanitize_no_forbidden: "c \<in> set (sanitize_filename n) \<Longrightarrow> \<not> forbidden c"
  by (induction n rule: sanitize_filename.induct)
    (auto simp: not_forbidden_underscore split: if_splits)

lemma sanitize_clean: "(\<forall>c\<in>set n. \<not> forbidden c) \<Longrightarrow> sanitize_filename n = n"
  by (induction n rule: sanitize_filename.induct) auto

lemma dropWhile_run:
  "(\<forall>c\<in>set r. forbidden c) \<Longrightarrow> b = [] \<or> \<not> forbidden (hd b) \<Longrightarrow>
   dropWhile forbidden (r @ b) = b"
  by (cases b) (auto simp: dropWhile_append)

lemma dropWhile_keeps_last:
  "cs \<noteq> [] \<Longrightarrow> \<not> forbidden (last cs) \<Longrightarrow>
   dropWhile forbidden cs \<noteq> [] \<and> last (dropWhile forbidden cs) = last cs"
  by (induction cs) (auto split: if_splits)

lemma sanitize_run:
  "r \<noteq> [] \<Longrightarrow> (\<forall>c\<in>set r. forbidden c) \<Longrightarrow> a = [] \<or> \<not> forbidden (last a) \<Longrightarrow>
   b = [] \<or> \<not> forbidden (hd b) \<Longrightarrow>
   sanitize_filename (a @ r @ b) = sanitize_filename a @ [95] @ sanitize_filename b"
proof (induction a rule: sanitize_filename.induct)
  case 1
  then obtain c r' where r: "r = c # r'" by (cases r) auto
  with 1 have "dropWhile forbidden (r' @ b) = b"
    by (intro dropWhile_run) auto
  with r 1 show ?case by simp
next
  case (2 c cs)
  show ?case
  proof (cases "forbidden c")
    case True
    with 2 have cs: "cs \<noteq> []" "\<not> forbidden (last cs)"
      by (auto split: if_splits)
    then have d: "dropWhile forbidden cs \<noteq> []" "last (dropWhile forbidden cs) = last cs"
      using dropWhile_keeps_last by blast+
    have "dropWhile forbidden (cs @ r @ b) = dropWhile forbidden cs @ r @ b"
      using d(1) by (metis dropWhile_append1 dropWhile_eq_Nil_conv)
    moreover have "sanitize_filename (dropWhile forbidden cs @ r @ b)
        = sanitize_filename (dropWhile forbidden cs) @ [95] @ sanitize_filename b"
      using 2 True d cs by simp
    ultimately show ?thesis using True by simp
  next
    case False
    with 2 have "cs = [] \<or> \<not> forbidden (last cs)"
      by (auto split: if_splits)
    with 2 False show ?thesis by simp
  qed
qed

lemma is_digit_digit: "is_digit (digit d)"
  by (simp add: is_digit_def digit_def)

lemma timestamp_form_now_ts: "timestamp_form (now_ts t)"
  by (simp add: timestamp_form_def now_ts_def pad2_def pad4_def is_digit_digit)

lemma digit_not_sep: "digit d \<noteq> 47"
  by (simp add: digit_def)

lemma export_filename_no_sep: "47 \<notin> set (export_filename src t)"
proof -
  have "47 \<notin> set (sanitize_filename src)"
    using sanitize_no_forbidden [of 47 src] by (auto simp: forbidden_def)
  moreover have "47 \<notin> set (now_ts t)"
    using digit_not_sep by (auto simp: now_ts_def pad2_def pad4_def)
  ultimately show ?thesis
    by (auto simp: export_filename_def ascii_def)
qed

lemma basename_join:
  assumes "47 \<notin> set n" "n \<noteq> []"
  shows "basename (path_join d n) = n"
proof -
  from assms have np: "\<not> prefix [47] n"
    by (cases n) auto
  have ne: "\<forall>x\<in>set n. x \<noteq> 47"
    using assms(1) by blast
  have tw: "takeWhile (\<lambda>c. c \<noteq> 47) (rev n) = rev n"
    using ne by (simp add: takeWhile_eq_all_conv)
  have "takeWhile (\<lambda>c. c \<noteq> 47) (rev n @ 47 # xs) = rev n" for xs
    using ne by (simp add: takeWhile_tail)
  then have a: "basename (ys @ [47] @ n) = n" for ys
    by (simp add: basename_def)
  have b: "basename n = n"
    by (simp add: basename_def tw)
  show ?thesis
  proof (cases "d = []")
    case True
    with np b show ?thesis by (simp add: path_join_def)
  next
    case False
    show ?thesis
    proof (cases "suffix [47] d")
      case True
      then obtain ys where "d = ys @ [47]" by (auto simp: suffix_def)
      with np a [of ys] show ?thesis by (simp add: path_join_def)
    next
      case False
      with np a [of d] \<open>d \<noteq> []\<close> show ?thesis by (simp add: path_join_def)
    qed
  qed
qed

lemma basename_export_path: "basename (export_path out_dir src t) = export_filename src t"
  unfolding export_path_def
  by (rule basename_join) (simp_all add: export_filename_no_sep, simp add: export_filename_def ascii_def)

text \<open>
  C5, as stated: the exported document is named \<open>Review_<s>_<timestamp>.docx\<close> where \<open>s\<close> is
  the source name with each occurrence of a character of the class replaced by an
  underscore. The pattern of the source ends in \<open>+\<close>, so two adjacent characters of the
  class become one underscore, not two: a review file named with \<open>a::b.pdf\<close> after its tag
  is exported under \<open>a_b.pdf\<close>.
\<close>

theorem export_name_counterexample:
  "basename (export_path (ascii ''/out'') (tag_review @ ascii ''a::b.pdf'') example_time)
     = ascii ''Review_'' @ tag_review @ ascii ''a_b.pdf_20240309_070500.docx''
   \<and> ascii ''Review_'' @ sanitize_each_occurrence (tag_review @ ascii ''a::b.pdf'') @ ascii ''_''
       @ now_ts example_time @ ascii ''.docx''
     = ascii ''Review_'' @ tag_review @ ascii ''a__b.pdf_20240309_070500.docx''
   \<and> basename (export_path (ascii ''/out'') (tag_review @ ascii ''a::b.pdf'') example_time)
     \<noteq> ascii ''Review_'' @ sanitize_each_occurrence (tag_review @ ascii ''a::b.pdf'')
         @ ascii ''_'' @ now_ts example_time @ ascii ''.docx''"
  by (simp add: basename_export_path export_filename_def sanitize_each_occurrence_def
      tag_review_def ascii_def forbidden_def now_ts_def example_time_def pad2_def pad4_def
      digit_def)

text \<open>
  C5, amended: the exported document is named \<open>Review_<s>_<timestamp>.docx\<close>, where the
  timestamp has the form \<open>YYYYMMDD_HHMMSS\<close> and \<open>s\<close> is the source name in which every
  maximal run of the characters \<open>\ / : * ? " < > |\<close> is replaced by a single underscore:
  \<open>s\<close> holds none of these characters, a name without them is kept as it is, and a run
  between two parts that it does not touch becomes one underscore between the sanitised
  parts.
\<close>

theorem export_name_form:
  assumes "valid_time t"
  shows "basename (export_path out_dir src t)
           = ascii ''Review_'' @ sanitize_filename src @ ascii ''_'' @ now_ts t @ ascii ''.docx''
       \<and> timestamp_form (now_ts t)
       \<and> (\<forall>c\<in>set (sanitize_filename src). \<not> forbidden c)
       \<and> ((\<forall>c\<in>set src. \<not> forbidden c) \<longrightarrow> sanitize_filename src = src)
       \<and> (\<forall>a r b. src = a @ r @ b \<and> r \<noteq> [] \<and> (\<forall>c\<in>set r. forbidden c)
             \<and> (a = [] \<or> \<not> forbidden (last a)) \<and> (b = [] \<or> \<not> forbidden (hd b))
           \<longrightarrow> sanitize_filename src = sanitize_filename a @ [95] @ sanitize_filename b)"
proof (intro conjI)
  show "basename (export_path out_dir src t)
      = ascii ''Review_'' @ sanitize_filename src @ ascii ''_'' @ now_ts t @ ascii ''.docx''"
    by (simp add: basename_export_path export_filename_def)
  show "timestamp_form (now_ts t)"
    by (rule timestamp_form_now_ts)
  show "\<forall>c\<in>set (sanitize_filename src). \<not> forbidden c"
    using sanitize_no_forbidden by blast
  show "(\<forall>c\<in>set src. \<not> forbidden c) \<longrightarrow> sanitize_filename src = src"
    using sanitize_clean by blast
  show "\<forall>a r b. src = a @ r @ b \<and> r \<noteq> [] \<and> (\<forall>c\<in>set r. forbidden c)
             \<and> (a = [] \<or> \<not> forbidden (last a)) \<and> (b = [] \<or> \<not> forbidden (hd b))
           \<longrightarrow> sanitize_filename src = sanitize_filename a @ [95] @ sanitize_filename b"
    using sanitize_run by blast
qed

theorem export_name_form_witness:
  "valid_time example_time
   \<and> basename (export_path (ascii ''/out'') (tag_review @ ascii ''a::b.pdf'') example_time)
       = ascii ''Review_'' @ tag_review @ ascii ''a_b.pdf_20240309_070500.docx''
   \<and> timestamp_form (ascii ''20240309_070500'')
   \<and> sanitize_filename (tag_review @ ascii ''a::b.pdf'')
       = sanitize_filename (tag_review @ ascii ''a'') @ [95] @ sanitize_filename (ascii ''b.pdf'')"
proof -
  have v: "valid_time example_time"
    by (simp add: valid_time_def example_time_def)
  have ts: "now_ts example_time = ascii ''20240309_070500''"
    by (simp add: now_ts_def example_time_def pad2_def pad4_def digit_def ascii_def)
  have san: "sanitize_filename (tag_review @ ascii ''a::b.pdf'') = tag_review @ ascii ''a_b.pdf''"
    by (simp add: tag_review_def ascii_def forbidden_def)
  have run: "tag_review @ ascii ''a::b.pdf'' = (tag_review @ ascii ''a'') @ ascii ''::'' @ ascii ''b.pdf''
      \<and> ascii ''::'' \<noteq> [] \<and> (\<forall>c\<in>set (ascii ''::''). forbidden c)
      \<and> (tag_review @ ascii ''a'' = [] \<or> \<not> forbidden (last (tag_review @ ascii ''a'')))
      \<and> (ascii ''b.pdf'' = [] \<or> \<not> forbidden (hd (ascii ''b.pdf'')))"
    by (simp add: tag_review_def ascii_def forbidden_def)
  from export_name_form [OF v, of "ascii ''/out''" "tag_review @ ascii ''a::b.pdf''"]
  have "basename (export_path (ascii ''/out'') (tag_review @ ascii ''a::b.pdf'') example_time)
          = ascii ''Review_'' @ sanitize_filename (tag_review @ ascii ''a::b.pdf'') @ ascii ''_''
            @ now_ts example_time @ ascii ''.docx''"
    and "timestamp_form (now_ts example_time)"
    and "\<forall>a r b. tag_review @ ascii ''a::b.pdf'' = a @ r @ b \<and> r \<noteq> []
           \<and> (\<forall>c\<in>set r. forbidden c)
           \<and> (a = [] \<or> \<not> forbidden (last a)) \<and> (b = [] \<or> \<not> forbidden (hd b))
         \<longrightarrow> sanitize_filename (tag_review @ ascii ''a::b.pdf'')
             = sanitize_filename a @ [95] @ sanitize_filename b"
    by blast+
  with run have "basename (export_path (ascii ''/out'') (tag_review @ ascii ''a::b.pdf'') example_time)
          = ascii ''Review_'' @ sanitize_filename (tag_review @ ascii ''a::b.pdf'') @ ascii ''_''
            @ now_ts example_time @ ascii ''.docx''"
    and "timestamp_form (now_ts example_time)"
    and "sanitize_filename (tag_review @ ascii ''a::b.pdf'')
       = sanitize_filename (tag_review @ ascii ''a'') @ [95] @ sanitize_filename (ascii ''b.pdf'')"
    by blast+
  with v ts san show ?thesis
    by (simp add: ascii_def)
qed

section \<open>Properties of the refresh debounce\<close>

lemma one_pending_init: "one_pending init_scheduler"
  by (simp add: one_pending_def init_scheduler_def)

lemma schedule_refresh_replaces:
  assumes "one_pending s"
  shows "refresh_job (schedule_refresh d s) = Some (next_id s)"
    and "pending (schedule_refresh d s) = [(next_id s, now s + d)]"
    and "now (schedule_refresh d s) = now s"
    and "refreshes (schedule_refresh d s) = refreshes s"
    and "one_pending (schedule_refresh d s)"
  using assms
  by (auto simp: one_pending_def schedule_refresh_def after_def after_cancel_def split: option.splits)

lemma advance_not_due:
  assumes "one_pending s" "\<forall>p\<in>set (pending s). t < snd p"
  shows "advance t s = s\<lparr>now := max (now s) t\<rparr>"
proof -
  have "filter (\<lambda>p. snd p \<le> t) (pending s) = []"
    using assms(2) by (auto simp: filter_empty_conv)
  then show ?thesis by (simp add: advance_def)
qed

lemma advance_due:
  assumes "one_pending s" "pending s = [(j, due)]" "due \<le> t"
  shows "advance t s = s\<lparr>now := max due t, pending := [], refresh_job := None,
           refreshes := refreshes s @ [due]\<rparr>"
proof -
  have "now s \<le> due"
    using assms(1,2) by (auto simp: one_pending_def split: option.splits)
  then show ?thesis
    using assms(2,3) by (simp add: advance_def run_refresh_def max_def)
qed

lemma advance_keeps:
  assumes "one_pending s"
  shows "one_pending (advance t s)"
proof (cases "refresh_job s")
  case None
  with assms have "pending s = []" by (simp add: one_pending_def)
  then have "advance t s = s\<lparr>now := max (now s) t\<rparr>"
    by (simp add: advance_def)
  with assms None show ?thesis by (simp add: one_pending_def)
next
  case (Some j)
  with assms obtain due where p: "pending s = [(j, due)]" "now s \<le> due"
    by (auto simp: one_pending_def)
  show ?thesis
  proof (cases "due \<le> t")
    case True
    from advance_due [OF assms p(1) True] show ?thesis by (simp add: one_pending_def)
  next
    case False
    with p have "advance t s = s\<lparr>now := max (now s) t\<rparr>"
      by (intro advance_not_due [OF assms]) auto
    with Some p False show ?thesis by (auto simp: one_pending_def)
  qed
qed



lemma exec_keeps: "one_pending s \<Longrightarrow> one_pending (exec as s)"
proof (induction as arbitrary: s)
  case Nil
  then show ?case by simp
next
  case (Cons a as)
  then show ?case
    by (cases a) (simp_all add: advance_keeps schedule_refresh_replaces(5))
qed







section \<open>Properties of the watcher's handler\<close>

text \<open>
  C6, as stated: every non-directory event of kind modification, move or deletion
  requests a refresh, whatever the name of the file. \<open>on_modified\<close> tests the name: a
  modification of a file whose name satisfies the skip predicate (here a lock file of
  a word processor) requests nothing, where the same event for a document does.
\<close>

theorem on_modified_skip_counterexample:
  "\<not> is_directory modified_lock_file
   \<and> on_modified modified_lock_file init_scheduler = init_scheduler
   \<and> pending (on_modified modified_lock_file init_scheduler) = []
   \<and> pending (schedule_refresh 300 init_scheduler) = [(0, 300)]
   \<and> pending (on_modified modified_document init_scheduler) = [(0, 300)]"
  by (simp add: on_modified_def modified_lock_file_def modified_document_def basename_def
      is_skip_file_def ascii_def suffix_to_prefix schedule_refresh_def after_def
      init_scheduler_def)

text \<open>
  C6, amended: every non-directory event of kind move or deletion, and every
  non-directory event of kind modification whose file name does not satisfy the skip
  predicate, requests a debounced refresh with delay 300 ms, with nothing else
  depending on the file; a modification of a file whose name satisfies the skip
  predicate is ignored. In a reachable state the request leaves one pending timer, due
  300 ms later.
\<close>

theorem handler_requests_refresh:
  assumes "\<not> is_directory event"
  shows "on_moved event s = schedule_refresh 300 s
       \<and> on_deleted event s = schedule_refresh 300 s
       \<and> on_modified event s
           = (if is_skip_file (basename (src_path event)) then s else schedule_refresh 300 s)
       \<and> pending (schedule_refresh 300 (exec history init_scheduler))
           = [(next_id (exec history init_scheduler), now (exec history init_scheduler) + 300)]"
proof -
  have "one_pending (exec history init_scheduler)"
    using one_pending_init by (rule exec_keeps)
  then have "pending (schedule_refresh 300 (exec history init_scheduler))
      = [(next_id (exec history init_scheduler), now (exec history init_scheduler) + 300)]"
    by (rule schedule_refresh_replaces(2))
  with assms show ?thesis
    by (simp add: on_moved_def on_deleted_def on_modified_def)
qed

theorem handler_requests_refresh_witness:
  "\<not> is_directory modified_document
   \<and> on_moved modified_document init_scheduler = schedule_refresh 300 init_scheduler
   \<and> on_deleted modified_lock_file init_scheduler = schedule_refresh 300 init_scheduler
   \<and> on_modified modified_document init_scheduler = schedule_refresh 300 init_scheduler
   \<and> on_modified modified_lock_file init_scheduler = init_scheduler
   \<and> pending (schedule_refresh 300 init_scheduler) = [(0, 300)]"
proof -
  have d: "\<not> is_directory modified_document" "\<not> is_directory modified_lock_file"
    by (simp_all add: modified_document_def modified_lock_file_def)
  have n: "\<not> is_skip_file (basename (src_path modified_document))"
      "is_skip_file (basename (src_path modified_lock_file))"
    by (simp_all add: modified_document_def modified_lock_file_def basename_def
        is_skip_file_def ascii_def suffix_to_prefix)
  have e: "exec [] init_scheduler = init_scheduler" "next_id init_scheduler = 0"
      "now init_scheduler = 0"
    by (simp_all add: init_scheduler_def)
  show ?thesis
    using d n e handler_requests_refresh [OF d(1), of init_scheduler "[]"]
      handler_requests_refresh [OF d(2), of init_scheduler "[]"]
    by simp
qed

section \<open>Properties of the clipboard monitor\<close>

lemma export_calls_in_append:
  "export_calls_in (xs @ ys) = export_calls_in xs @ export_calls_in ys"
  by (induction xs rule: export_calls_in.induct) simp_all

lemma export_calls_show_notification:
  "export_calls_in (effects (show_notification m w)) = export_calls_in (effects w)"
  by (simp add: show_notification_def export_calls_in_append)

lemma export_calls_schedule:
  "export_calls_in (effects (schedule_clipboard_poll i w)) = export_calls_in (effects w)"
  by (simp add: schedule_clipboard_poll_def add_effect_def Let_def
      export_calls_in_append split: option.splits)

lemma export_calls_export_content:
  "export_calls_in (effects (snd (export_content cfg env c od sd w)))
     = export_calls_in (effects w) @ [c]"
  by (simp add: export_content_def Let_def export_calls_show_notification add_effect_def
      export_calls_in_append split: export_outcome.splits)

lemma last_clipboard_show_notification:
  "last_clipboard (show_notification m w) = last_clipboard w"
  by (simp add: show_notification_def)

lemma last_clipboard_export_content:
  "last_clipboard (snd (export_content cfg env c od sd w)) = last_clipboard w"
  by (simp add: export_content_def Let_def show_notification_def add_effect_def
      split: export_outcome.splits)

lemma last_clipboard_schedule:
  "last_clipboard (schedule_clipboard_poll i w) = last_clipboard w"
  by (simp add: schedule_clipboard_poll_def add_effect_def Let_def split: option.splits)

lemma clipboard_auto_export_content:
  "clipboard_auto (snd (export_content cfg env c od sd w)) = clipboard_auto w"
  by (simp add: export_content_def Let_def show_notification_def add_effect_def
      split: export_outcome.splits)

lemma clipboard_auto_schedule:
  "clipboard_auto (schedule_clipboard_poll i w) = clipboard_auto w"
  by (simp add: schedule_clipboard_poll_def add_effect_def Let_def split: option.splits)

lemma reply_display_export_content:
  "reply_display (snd (export_content cfg env c od sd w)) = reply_display w"
  by (simp add: export_content_def Let_def show_notification_def add_effect_def
      split: export_outcome.splits)

lemma reply_display_schedule:
  "reply_display (schedule_clipboard_poll i w) = reply_display w"
  by (simp add: schedule_clipboard_poll_def add_effect_def Let_def split: option.splits)

lemma word_export_schedule:
  "e \<in> set (effects w) \<Longrightarrow> e \<in> set (effects (schedule_clipboard_poll i w))"
  by (simp add: schedule_clipboard_poll_def add_effect_def Let_def split: option.splits)

lemma word_export_export_content:
  "c \<noteq> [] \<Longrightarrow> combo_review w \<noteq> none_sentinel \<Longrightarrow>
   WordExport (output_dir cfg (current_project w) (current_delivery w)) (combo_review w) c
     \<in> set (effects (snd (export_content cfg env c od sd w)))"
  by (simp add: export_content_def Let_def show_notification_def add_effect_def
      split: export_outcome.splits)

lemma poll_armed:
  "clipboard_auto w \<Longrightarrow> clipboard_auto (poll_clipboard cfg env w)"
  by (simp add: poll_clipboard_def Let_def clipboard_auto_schedule
      clipboard_auto_export_content set_reply_text_def)

lemma poll_new:
  assumes "clipboard_auto w" "observed env \<noteq> []" "last_clipboard w \<noteq> Some (observed env)"
  shows "export_calls (poll_clipboard cfg env w) = export_calls w @ [observed env]"
    and "last_clipboard (poll_clipboard cfg env w) = Some (observed env)"
    and "reply_display (poll_clipboard cfg env w) = observed env"
    and "combo_review w \<noteq> none_sentinel \<Longrightarrow>
         WordExport (output_dir cfg (current_project w) (current_delivery w)) (combo_review w)
           (observed env) \<in> set (effects (poll_clipboard cfg env w))"
proof -
  let ?c = "get_clipboard_text (clipboard env)"
  let ?w1 = "set_reply_text ?c (w\<lparr>clipboard_job := None, last_clipboard := Some ?c\<rparr>)"
  have p: "poll_clipboard cfg env w
      = schedule_clipboard_poll False (snd (export_content cfg env ?c False False ?w1))"
    using assms by (auto simp: poll_clipboard_def Let_def observed_def)
  show "export_calls (poll_clipboard cfg env w) = export_calls w @ [observed env]"
    by (simp add: p export_calls_def export_calls_schedule export_calls_export_content
        set_reply_text_def observed_def)
  show "last_clipboard (poll_clipboard cfg env w) = Some (observed env)"
    by (simp add: p last_clipboard_schedule last_clipboard_export_content
        set_reply_text_def observed_def)
  show "reply_display (poll_clipboard cfg env w) = observed env"
    by (simp add: p reply_display_schedule reply_display_export_content
        set_reply_text_def observed_def)
  show "WordExport (output_dir cfg (current_project w) (current_delivery w)) (combo_review w)
      (observed env) \<in> set (effects (poll_clipboard cfg env w))"
    if t: "combo_review w \<noteq> none_sentinel"
  proof -
    have "?c \<noteq> []" "combo_review ?w1 \<noteq> none_sentinel"
      using assms(2) t by (simp_all add: observed_def set_reply_text_def)
    then have "WordExport (output_dir cfg (current_project ?w1) (current_delivery ?w1))
        (combo_review ?w1) ?c \<in> set (effects (snd (export_content cfg env ?c False False ?w1)))"
      by (rule word_export_export_content)
    then have "WordExport (output_dir cfg (current_project ?w1) (current_delivery ?w1))
        (combo_review ?w1) ?c \<in> set (effects (poll_clipboard cfg env w))"
      unfolding p by (rule word_export_schedule)
    then show ?thesis
      by (simp add: set_reply_text_def observed_def)
  qed
qed

lemma poll_old:
  assumes "clipboard_auto w" "observed env = [] \<or> last_clipboard w = Some (observed env)"
  shows "export_calls (poll_clipboard cfg env w) = export_calls w"
    and "last_clipboard (poll_clipboard cfg env w) = last_clipboard w"
    and "reply_display (poll_clipboard cfg env w) = reply_display w"
    and "effects (poll_clipboard cfg env w)
           = effects w @ [AfterCall (after_counter w) clipboard_poll_ms PollClipboard]"
proof -
  have p: "poll_clipboard cfg env w = schedule_clipboard_poll False (w\<lparr>clipboard_job := None\<rparr>)"
    using assms by (auto simp: poll_clipboard_def Let_def observed_def)
  show "export_calls (poll_clipboard cfg env w) = export_calls w"
    by (simp add: p export_calls_def export_calls_schedule)
  show "last_clipboard (poll_clipboard cfg env w) = last_clipboard w"
    by (simp add: p last_clipboard_schedule)
  show "reply_display (poll_clipboard cfg env w) = reply_display w"
    by (simp add: p reply_display_schedule)
  show "effects (poll_clipboard cfg env w)
      = effects w @ [AfterCall (after_counter w) clipboard_poll_ms PollClipboard]"
    by (simp add: p schedule_clipboard_poll_def Let_def)
qed

lemma poll_step:
  assumes "clipboard_auto v"
  shows "(observed e \<noteq> [] \<and> last_clipboard v \<noteq> Some (observed e) \<longrightarrow>
            export_calls (poll_clipboard cfg e v) = export_calls v @ [observed e]
          \<and> last_clipboard (poll_clipboard cfg e v) = Some (observed e))
       \<and> (\<not> (observed e \<noteq> [] \<and> last_clipboard v \<noteq> Some (observed e)) \<longrightarrow>
            export_calls (poll_clipboard cfg e v) = export_calls v
          \<and> last_clipboard (poll_clipboard cfg e v) = last_clipboard v)"
proof (cases "observed e \<noteq> [] \<and> last_clipboard v \<noteq> Some (observed e)")
  case True
  then have "observed e \<noteq> []" "last_clipboard v \<noteq> Some (observed e)" by simp_all
  from poll_new(1,2) [OF assms this] True show ?thesis by simp
next
  case False
  then have "observed e = [] \<or> last_clipboard v = Some (observed e)" by blast
  from poll_old(1,2) [OF assms this] False show ?thesis by simp
qed

lemma poll_step_effects:
  assumes "clipboard_auto v"
  shows "(observed e \<noteq> [] \<and> last_clipboard v \<noteq> Some (observed e)
            \<and> combo_review v \<noteq> none_sentinel \<longrightarrow>
            WordExport (output_dir cfg (current_project v) (current_delivery v))
              (combo_review v) (observed e) \<in> set (effects (poll_clipboard cfg e v)))
       \<and> (\<not> (observed e \<noteq> [] \<and> last_clipboard v \<noteq> Some (observed e)) \<longrightarrow>
            effects (poll_clipboard cfg e v)
              = effects v @ [AfterCall (after_counter v) clipboard_poll_ms PollClipboard])"
proof (cases "observed e \<noteq> [] \<and> last_clipboard v \<noteq> Some (observed e)")
  case True
  then have "observed e \<noteq> []" "last_clipboard v \<noteq> Some (observed e)" by simp_all
  from poll_new(4) [OF assms this] True show ?thesis by simp
next
  case False
  then have "observed e = [] \<or> last_clipboard v = Some (observed e)" by blast
  from poll_old(4) [OF assms this, of cfg] False show ?thesis by blast
qed

lemma poll_disarmed:
  "\<not> clipboard_auto w \<Longrightarrow> poll_clipboard cfg env w = w\<lparr>clipboard_job := None\<rparr>"
  by (simp add: poll_clipboard_def)

lemma toggle_off:
  "export_calls (toggle_clipboard_watch (w\<lparr>clipboard_auto := False\<rparr>)) = export_calls w"
  "last_clipboard (toggle_clipboard_watch (w\<lparr>clipboard_auto := False\<rparr>)) = last_clipboard w"
  "\<not> clipboard_auto (toggle_clipboard_watch (w\<lparr>clipboard_auto := False\<rparr>))"
  by (simp_all add: toggle_clipboard_watch_def show_notification_def add_effect_def
      export_calls_def export_calls_in_append split: option.splits)

lemma toggle_on:
  "export_calls (toggle_clipboard_watch (w\<lparr>clipboard_auto := True\<rparr>)) = export_calls w"
  "last_clipboard (toggle_clipboard_watch (w\<lparr>clipboard_auto := True\<rparr>)) = None"
  "clipboard_auto (toggle_clipboard_watch (w\<lparr>clipboard_auto := True\<rparr>))"
  by (simp_all add: toggle_clipboard_watch_def show_notification_def add_effect_def
      schedule_clipboard_poll_def Let_def export_calls_def export_calls_in_append
      split: option.splits)

lemma poll_seen:
  assumes "last_clipboard w = Some c" "observed e = c"
  shows "export_calls (poll_clipboard cfg e w) = export_calls w"
    and "last_clipboard (poll_clipboard cfg e w) = Some c"
proof -
  show "export_calls (poll_clipboard cfg e w) = export_calls w"
  proof (cases "clipboard_auto w")
    case True
    from poll_old(1) [OF True, of e cfg] assms show ?thesis by simp
  next
    case False
    then show ?thesis by (simp add: poll_disarmed export_calls_def)
  qed
  show "last_clipboard (poll_clipboard cfg e w) = Some c"
  proof (cases "clipboard_auto w")
    case True
    from poll_old(2) [OF True, of e cfg] assms show ?thesis by simp
  next
    case False
    then show ?thesis by (simp add: poll_disarmed assms(1))
  qed
qed

lemma run_actions_unchanged:
  assumes "last_clipboard w = Some c" "\<forall>a\<in>set as. keeps c a"
  shows "export_calls (run_actions cfg as w) = export_calls w
       \<and> last_clipboard (run_actions cfg as w) = Some c"
  using assms
proof (induction as arbitrary: w)
  case Nil
  then show ?case by simp
next
  case (Cons a as)
  show ?case
  proof (cases a)
    case (PollTick e)
    with Cons.prems(2) have o: "observed e = c" by simp
    have "export_calls (poll_clipboard cfg e w) = export_calls w"
      and l: "last_clipboard (poll_clipboard cfg e w) = Some c"
      using poll_seen [OF Cons.prems(1) o] by simp_all
    with Cons.IH [OF l] Cons.prems(2) PollTick show ?thesis by simp
  next
    case (Toggle b)
    with Cons.prems(2) have b: "\<not> b" by simp
    have l: "last_clipboard (toggle_clipboard_watch (w\<lparr>clipboard_auto := False\<rparr>)) = Some c"
      using Cons.prems(1) by (simp add: toggle_off)
    with Cons.IH [OF l] Cons.prems(2) Toggle b show ?thesis
      by (simp add: toggle_off)
  qed
qed

lemma py_isspace_iff:
  "py_isspace c \<longleftrightarrow>
     c \<in> set [9, 10, 11, 12, 13, 28, 29, 30, 31, 32, 133, 160, 5760, 8192, 8193, 8194, 8195,
               8196, 8197, 8198, 8199, 8200, 8201, 8202, 8232, 8233, 8239, 8287, 12288]"
  by (simp only: py_isspace_def)

lemma dropWhile_all: "\<forall>c\<in>set a. P c \<Longrightarrow> dropWhile P (a @ r) = dropWhile P r"
  by (induction a) auto

lemma py_strip_core:
  assumes "\<forall>c\<in>set (a @ b). py_isspace c"
    and "m = [] \<or> (\<not> py_isspace (hd m) \<and> \<not> py_isspace (last m))"
  shows "py_strip (a @ m @ b) = m"
proof (cases "m = []")
  case True
  have d: "dropWhile py_isspace (a @ [] @ b) = []"
    using assms(1) by (metis append_Nil dropWhile_eq_Nil_conv)
  show ?thesis
    unfolding True py_strip_def d by simp
next
  case False
  with assms(2) have e: "\<not> py_isspace (hd m)" "\<not> py_isspace (last m)" by simp_all
  have a: "\<forall>c\<in>set a. py_isspace c" and b: "\<forall>c\<in>set (rev b). py_isspace c"
    using assms(1) by simp_all
  have "dropWhile py_isspace (a @ m @ b) = dropWhile py_isspace (m @ b)"
    using a by (rule dropWhile_all)
  also have "\<dots> = m @ b"
    using False e(1) by (cases m) simp_all
  finally have 1: "dropWhile py_isspace (a @ m @ b) = m @ b" .
  have "dropWhile py_isspace (rev b @ rev m) = dropWhile py_isspace (rev m)"
    using b by (rule dropWhile_all)
  also have "\<dots> = rev m"
    using False e(2) by (cases "rev m") (simp_all add: hd_rev [symmetric])
  finally have 2: "dropWhile py_isspace (rev (m @ b)) = rev m" by simp
  show ?thesis
    by (simp only: py_strip_def 1 2 rev_rev_ident)
qed

lemma observed_strip:
  "\<forall>(e::poll_env) a m b. clipboard e = ClipText (a @ m @ b)
       \<and> (\<forall>c\<in>set (a @ b). c \<in> set [9, 10, 11, 12, 13, 28, 29, 30, 31, 32, 133, 160, 5760,
              8192, 8193, 8194, 8195, 8196, 8197, 8198, 8199, 8200, 8201, 8202, 8232, 8233,
              8239, 8287, 12288])
       \<and> (m = [] \<or> (hd m \<notin> set [9, 10, 11, 12, 13, 28, 29, 30, 31, 32, 133, 160, 5760,
              8192, 8193, 8194, 8195, 8196, 8197, 8198, 8199, 8200, 8201, 8202, 8232, 8233,
              8239, 8287, 12288]
            \<and> last m \<notin> set [9, 10, 11, 12, 13, 28, 29, 30, 31, 32, 133, 160, 5760,
              8192, 8193, 8194, 8195, 8196, 8197, 8198, 8199, 8200, 8201, 8202, 8232, 8233,
              8239, 8287, 12288]))
     \<longrightarrow> observed e = m"
proof (intro allI impI)
  fix e :: poll_env and a m b
  assume h: "clipboard e = ClipText (a @ m @ b)
       \<and> (\<forall>c\<in>set (a @ b). c \<in> set [9, 10, 11, 12, 13, 28, 29, 30, 31, 32, 133, 160, 5760,
              8192, 8193, 8194, 8195, 8196, 8197, 8198, 8199, 8200, 8201, 8202, 8232, 8233,
              8239, 8287, 12288])
       \<and> (m = [] \<or> (hd m \<notin> set [9, 10, 11, 12, 13, 28, 29, 30, 31, 32, 133, 160, 5760,
              8192, 8193, 8194, 8195, 8196, 8197, 8198, 8199, 8200, 8201, 8202, 8232, 8233,
              8239, 8287, 12288]
            \<and> last m \<notin> set [9, 10, 11, 12, 13, 28, 29, 30, 31, 32, 133, 160, 5760,
              8192, 8193, 8194, 8195, 8196, 8197, 8198, 8199, 8200, 8201, 8202, 8232, 8233,
              8239, 8287, 12288]))"
  then have "\<forall>c\<in>set (a @ b). py_isspace c"
    and "m = [] \<or> (\<not> py_isspace (hd m) \<and> \<not> py_isspace (last m))"
    unfolding py_isspace_iff by blast+
  then have "py_strip (a @ m @ b) = m" by (rule py_strip_core)
  with h show "observed e = m"
    by (simp add: observed_def get_clipboard_text_def)
qed

lemma observed_no_text:
  "\<forall>e::poll_env. clipboard e = ClipTclError \<or> clipboard e = ClipNotStr \<longrightarrow> observed e = []"
  by (auto simp: observed_def get_clipboard_text_def)

lemma observed_examples:
  "observed (poll_of '' A '' x) = ascii ''A''"
  "observed (poll_of ''A'' x) = ascii ''A''"
  "observed (poll_of ''A '' x) = ascii ''A''"
  "observed (poll_of ''B'' x) = ascii ''B''"
  "observed (poll_of ''  '' x) = []"
  by (simp_all add: observed_def poll_of_def get_clipboard_text_def py_strip_def
      py_isspace_def ascii_def)

lemma example_window_facts:
  "clipboard_auto example_window" "last_clipboard example_window = None"
  "export_calls example_window = []"
  by (simp_all add: example_window_def export_calls_def)

text \<open>
  C3, as stated: an armed poll triggers an export exactly when the clipboard text is
  non-empty and differs by exact value equality from the last-seen value. The poll
  compares the text that \<open>_get_clipboard_text\<close> returns, which is the clipboard text
  stripped of its surrounding white space. After the text \<open>A\<close>, the text \<open>A\<close> followed by a
  space is non-empty and differs from the snapshot, and triggers nothing; a clipboard
  of two spaces is non-empty and new, and triggers nothing.
\<close>

theorem poll_stripped_text_counterexample:
  "clipboard_auto example_window \<and> last_clipboard example_window = None
   \<and> clipboard (poll_of ''A'' ExportSaved) = ClipText [65]
   \<and> clipboard (poll_of ''A '' ExportSaved) = ClipText [65, 32]
   \<and> clipboard (poll_of ''  '' ExportSaved) = ClipText [32, 32]
   \<and> last_clipboard (poll_clipboard example_cfg (poll_of ''A'' ExportSaved) example_window)
       = Some [65]
   \<and> export_calls (poll_clipboard example_cfg (poll_of ''A'' ExportSaved) example_window)
       = [[65]]
   \<and> export_calls (poll_clipboard example_cfg (poll_of ''A '' ExportSaved)
        (poll_clipboard example_cfg (poll_of ''A'' ExportSaved) example_window)) = [[65]]
   \<and> export_calls (poll_clipboard example_cfg (poll_of ''  '' ExportSaved) example_window) = []"
proof -
  have a: "ascii ''A'' = [65]"
    by (simp add: ascii_def)
  have c: "clipboard (poll_of ''A'' ExportSaved) = ClipText [65]"
      "clipboard (poll_of ''A '' ExportSaved) = ClipText [65, 32]"
      "clipboard (poll_of ''  '' ExportSaved) = ClipText [32, 32]"
    by (simp_all add: poll_of_def ascii_def)
  have n: "observed (poll_of ''A'' ExportSaved) \<noteq> []"
      "last_clipboard example_window \<noteq> Some (observed (poll_of ''A'' ExportSaved))"
    by (simp_all add: observed_examples example_window_facts a)
  have first: "export_calls (poll_clipboard example_cfg (poll_of ''A'' ExportSaved) example_window)
        = [[65]]"
      "last_clipboard (poll_clipboard example_cfg (poll_of ''A'' ExportSaved) example_window)
        = Some [65]"
    using poll_new(1,2) [OF example_window_facts(1) n, of example_cfg]
    by (simp_all add: observed_examples example_window_facts a)
  have armed: "clipboard_auto (poll_clipboard example_cfg (poll_of ''A'' ExportSaved) example_window)"
    using example_window_facts(1) by (rule poll_armed)
  have "observed (poll_of ''A '' ExportSaved) = []
      \<or> last_clipboard (poll_clipboard example_cfg (poll_of ''A'' ExportSaved) example_window)
          = Some (observed (poll_of ''A '' ExportSaved))"
    by (simp add: first observed_examples a)
  from poll_old(1) [OF armed this, of example_cfg]
  have second: "export_calls (poll_clipboard example_cfg (poll_of ''A '' ExportSaved)
        (poll_clipboard example_cfg (poll_of ''A'' ExportSaved) example_window)) = [[65]]"
    by (simp add: first)
  have "observed (poll_of ''  '' ExportSaved) = []
      \<or> last_clipboard example_window = Some (observed (poll_of ''  '' ExportSaved))"
    by (simp add: observed_examples)
  from poll_old(1) [OF example_window_facts(1) this, of example_cfg]
  have blank: "export_calls (poll_clipboard example_cfg (poll_of ''  '' ExportSaved) example_window)
      = []"
    by (simp add: example_window_facts)
  from example_window_facts(1,2) c first second blank show ?thesis by simp
qed

text \<open>
  C3, amended: while the monitor is armed, a poll calls \<open>_export_content\<close> and sets the
  snapshot to the text it read exactly when that text is non-empty and differs from the
  snapshot (with a review target selected, the exporter is then called with that
  text); otherwise it does neither, and its only effect is the timer of the next poll.
  The text read is the clipboard text without its leading and trailing white space,
  and the empty text when the clipboard holds no text. Two polls in a row that read
  the same text make at most one call; a poll that reads a non-empty text and the next
  one that reads another non-empty text make a call for the second text, after the call
  for the first when the first was new.
\<close>

theorem poll_exports_new_content:
  assumes "clipboard_auto w"
  shows "(observed env \<noteq> [] \<and> last_clipboard w \<noteq> Some (observed env) \<longrightarrow>
            export_calls (poll_clipboard cfg env w) = export_calls w @ [observed env]
          \<and> last_clipboard (poll_clipboard cfg env w) = Some (observed env))
       \<and> (\<not> (observed env \<noteq> [] \<and> last_clipboard w \<noteq> Some (observed env)) \<longrightarrow>
            export_calls (poll_clipboard cfg env w) = export_calls w
          \<and> last_clipboard (poll_clipboard cfg env w) = last_clipboard w)
       \<and> ((observed env \<noteq> [] \<and> last_clipboard w \<noteq> Some (observed env)
            \<and> combo_review w \<noteq> [40, 28961, 41] \<longrightarrow>
            WordExport (output_dir cfg (current_project w) (current_delivery w))
              (combo_review w) (observed env) \<in> set (effects (poll_clipboard cfg env w)))
          \<and> (\<not> (observed env \<noteq> [] \<and> last_clipboard w \<noteq> Some (observed env)) \<longrightarrow>
            effects (poll_clipboard cfg env w)
              = effects w @ [AfterCall (after_counter w) 700 PollClipboard]))
       \<and> (\<forall>e1 e2. observed e1 = observed e2 \<longrightarrow>
            length (export_calls (poll_clipboard cfg e2 (poll_clipboard cfg e1 w)))
              \<le> Suc (length (export_calls w)))
       \<and> (\<forall>e1 e2. observed e1 \<noteq> [] \<and> observed e2 \<noteq> [] \<and> observed e1 \<noteq> observed e2 \<longrightarrow>
            export_calls (poll_clipboard cfg e2 (poll_clipboard cfg e1 w))
              = export_calls (poll_clipboard cfg e1 w) @ [observed e2]
          \<and> (last_clipboard w \<noteq> Some (observed e1) \<longrightarrow>
               export_calls (poll_clipboard cfg e2 (poll_clipboard cfg e1 w))
                 = export_calls w @ [observed e1, observed e2]))
       \<and> (\<forall>(e::poll_env) a m b. clipboard e = ClipText (a @ m @ b)
            \<and> (\<forall>c\<in>set (a @ b). c \<in> set [9, 10, 11, 12, 13, 28, 29, 30, 31, 32, 133, 160, 5760,
              8192, 8193, 8194, 8195, 8196, 8197, 8198, 8199, 8200, 8201, 8202, 8232, 8233,
              8239, 8287, 12288])
            \<and> (m = [] \<or> (hd m \<notin> set [9, 10, 11, 12, 13, 28, 29, 30, 31, 32, 133, 160, 5760,
              8192, 8193, 8194, 8195, 8196, 8197, 8198, 8199, 8200, 8201, 8202, 8232, 8233,
              8239, 8287, 12288]
                 \<and> last m \<notin> set [9, 10, 11, 12, 13, 28, 29, 30, 31, 32, 133, 160, 5760,
              8192, 8193, 8194, 8195, 8196, 8197, 8198, 8199, 8200, 8201, 8202, 8232, 8233,
              8239, 8287, 12288]))
          \<longrightarrow> observed e = m)
       \<and> (\<forall>e::poll_env. clipboard e = ClipTclError \<or> clipboard e = ClipNotStr \<longrightarrow> observed e = [])"
proof -
  note step = poll_step [where cfg = cfg]
  have armed: "\<And>e. clipboard_auto (poll_clipboard cfg e w)"
    using assms by (rule poll_armed)
  have same: "\<forall>e1 e2. observed e1 = observed e2 \<longrightarrow>
      length (export_calls (poll_clipboard cfg e2 (poll_clipboard cfg e1 w)))
        \<le> Suc (length (export_calls w))"
  proof (intro allI impI)
    fix e1 e2
    assume eq: "observed e1 = observed e2"
    show "length (export_calls (poll_clipboard cfg e2 (poll_clipboard cfg e1 w)))
        \<le> Suc (length (export_calls w))"
    proof (cases "observed e1 \<noteq> [] \<and> last_clipboard w \<noteq> Some (observed e1)")
      case True
      with step [OF assms, of e1]
      have a: "export_calls (poll_clipboard cfg e1 w) = export_calls w @ [observed e1]"
          "last_clipboard (poll_clipboard cfg e1 w) = Some (observed e1)"
        by simp_all
      with eq step [OF armed, of e2 e1]
      have "export_calls (poll_clipboard cfg e2 (poll_clipboard cfg e1 w))
          = export_calls (poll_clipboard cfg e1 w)"
        by simp
      with a show ?thesis by simp
    next
      case False
      with step [OF assms, of e1]
      have a: "export_calls (poll_clipboard cfg e1 w) = export_calls w"
          "last_clipboard (poll_clipboard cfg e1 w) = last_clipboard w"
        by simp_all
      with eq False step [OF armed, of e2 e1]
      have "export_calls (poll_clipboard cfg e2 (poll_clipboard cfg e1 w))
          = export_calls (poll_clipboard cfg e1 w)"
        by auto
      with a show ?thesis by simp
    qed
  qed
  have changed: "\<forall>e1 e2. observed e1 \<noteq> [] \<and> observed e2 \<noteq> [] \<and> observed e1 \<noteq> observed e2 \<longrightarrow>
      export_calls (poll_clipboard cfg e2 (poll_clipboard cfg e1 w))
        = export_calls (poll_clipboard cfg e1 w) @ [observed e2]
    \<and> (last_clipboard w \<noteq> Some (observed e1) \<longrightarrow>
         export_calls (poll_clipboard cfg e2 (poll_clipboard cfg e1 w))
           = export_calls w @ [observed e1, observed e2])"
  proof (intro allI impI)
    fix e1 e2
    assume ne: "observed e1 \<noteq> [] \<and> observed e2 \<noteq> [] \<and> observed e1 \<noteq> observed e2"
    have l: "last_clipboard (poll_clipboard cfg e1 w) = Some (observed e1)"
      using step [OF assms, of e1] ne by (cases "last_clipboard w = Some (observed e1)") auto
    with ne step [OF armed, of e2 e1]
    have b: "export_calls (poll_clipboard cfg e2 (poll_clipboard cfg e1 w))
        = export_calls (poll_clipboard cfg e1 w) @ [observed e2]"
      by auto
    moreover have "last_clipboard w \<noteq> Some (observed e1) \<longrightarrow>
        export_calls (poll_clipboard cfg e1 w) = export_calls w @ [observed e1]"
      using step [OF assms, of e1] ne by simp
    ultimately show "export_calls (poll_clipboard cfg e2 (poll_clipboard cfg e1 w))
          = export_calls (poll_clipboard cfg e1 w) @ [observed e2]
        \<and> (last_clipboard w \<noteq> Some (observed e1) \<longrightarrow>
           export_calls (poll_clipboard cfg e2 (poll_clipboard cfg e1 w))
             = export_calls w @ [observed e1, observed e2])"
      by simp
  qed
  have eff: "(observed env \<noteq> [] \<and> last_clipboard w \<noteq> Some (observed env)
            \<and> combo_review w \<noteq> [40, 28961, 41] \<longrightarrow>
            WordExport (output_dir cfg (current_project w) (current_delivery w))
              (combo_review w) (observed env) \<in> set (effects (poll_clipboard cfg env w)))
          \<and> (\<not> (observed env \<noteq> [] \<and> last_clipboard w \<noteq> Some (observed env)) \<longrightarrow>
            effects (poll_clipboard cfg env w)
              = effects w @ [AfterCall (after_counter w) 700 PollClipboard])"
    using poll_step_effects [OF assms, of env cfg]
    by (simp add: none_sentinel_def clipboard_poll_ms_def)
  note s = step [OF assms, of env]
  show ?thesis
    by (rule conjI [OF s [THEN conjunct1] conjI [OF s [THEN conjunct2] conjI [OF eff
          conjI [OF same conjI [OF changed conjI [OF observed_strip observed_no_text]]]]]])
qed


theorem poll_exports_new_content_witness:
  "clipboard_auto example_window
   \<and> export_calls (poll_clipboard example_cfg (poll_of '' A '' ExportSaved) example_window)
       = [ascii ''A'']
   \<and> last_clipboard (poll_clipboard example_cfg (poll_of '' A '' ExportSaved) example_window)
       = Some (ascii ''A'')
   \<and> length (export_calls (poll_clipboard example_cfg (poll_of ''A'' ExportSaved)
        (poll_clipboard example_cfg (poll_of '' A '' ExportSaved) example_window))) \<le> 1
   \<and> export_calls (poll_clipboard example_cfg (poll_of ''B'' ExportSaved)
        (poll_clipboard example_cfg (poll_of '' A '' ExportSaved) example_window))
       = [ascii ''A'', ascii ''B'']"
proof -
  have ne: "ascii ''A'' \<noteq> []" "ascii ''B'' \<noteq> []" "ascii ''A'' \<noteq> ascii ''B''"
    by (simp_all add: ascii_def)
  note T = poll_exports_new_content [OF example_window_facts(1),
      of "poll_of '' A '' ExportSaved" example_cfg]
  have a: "export_calls (poll_clipboard example_cfg (poll_of '' A '' ExportSaved) example_window)
        = [ascii ''A'']
      \<and> last_clipboard (poll_clipboard example_cfg (poll_of '' A '' ExportSaved) example_window)
        = Some (ascii ''A'')"
    using T [THEN conjunct1] ne
    by (simp add: observed_examples example_window_facts)
  have b': "length (export_calls (poll_clipboard example_cfg (poll_of ''A'' ExportSaved)
        (poll_clipboard example_cfg (poll_of '' A '' ExportSaved) example_window))) \<le> 1"
    using T [THEN conjunct2, THEN conjunct2, THEN conjunct2, THEN conjunct1, rule_format,
        of "poll_of '' A '' ExportSaved" "poll_of ''A'' ExportSaved"]
    by (simp add: observed_examples example_window_facts)
  have c': "export_calls (poll_clipboard example_cfg (poll_of ''B'' ExportSaved)
        (poll_clipboard example_cfg (poll_of '' A '' ExportSaved) example_window))
       = [ascii ''A'', ascii ''B'']"
    using T [THEN conjunct2, THEN conjunct2, THEN conjunct2, THEN conjunct2, THEN conjunct1,
        rule_format, of "poll_of '' A '' ExportSaved" "poll_of ''B'' ExportSaved"] ne a
    by (simp add: observed_examples example_window_facts)
  from a b' c' example_window_facts(1) show ?thesis by simp
qed

lemma poll_new_unfold:
  assumes "clipboard_auto w" "observed env \<noteq> []" "last_clipboard w \<noteq> Some (observed env)"
  shows "poll_clipboard cfg env w
      = schedule_clipboard_poll False (snd (export_content cfg env (observed env) False False
          (set_reply_text (observed env)
             (w\<lparr>clipboard_job := None, last_clipboard := Some (observed env)\<rparr>))))"
  using assms by (auto simp: poll_clipboard_def Let_def observed_def)

text \<open>
  C10, as stated: after a failed export the same clipboard content is never exported
  again by a later poll while it remains unchanged. Arming the monitor resets the
  snapshot (line 1156): the export of \<open>A\<close> fails, the user clears the check box and sets
  it again, and the next poll, with the clipboard unchanged, hands the same text to
  \<open>_export_content\<close> a second time.
\<close>

theorem rearmed_poll_counterexample:
  "clipboard_auto example_window \<and> last_clipboard example_window = None
   \<and> clipboard failing_poll = ClipText [32, 65, 32]
   \<and> \<not> fst (export_content example_cfg failing_poll [65] False False
          (set_reply_text [65]
             (example_window\<lparr>clipboard_job := None, last_clipboard := Some [65]\<rparr>)))
   \<and> export_calls (run_actions example_cfg [PollTick failing_poll] example_window) = [[65]]
   \<and> clipboard (poll_of '' A '' ExportSaved) = clipboard failing_poll
   \<and> export_calls (run_actions example_cfg
        [PollTick failing_poll, Toggle False, Toggle True,
         PollTick (poll_of '' A '' ExportSaved)]
        example_window) = [[65], [65]]"
proof -
  have a: "ascii ''A'' = [65]"
    by (simp add: ascii_def)
  have c: "clipboard failing_poll = ClipText [32, 65, 32]"
    by (simp add: failing_poll_def poll_of_def ascii_def)
  have o: "observed failing_poll = [65]"
    by (simp add: failing_poll_def observed_examples a)
  have f: "\<not> fst (export_content example_cfg failing_poll [65] False False
          (set_reply_text [65]
             (example_window\<lparr>clipboard_job := None, last_clipboard := Some [65]\<rparr>)))"
    by (simp add: export_content_def Let_def failing_poll_def poll_of_def add_effect_def
        set_reply_text_def example_window_def none_sentinel_def tag_review_def ascii_def)
  let ?w1 = "poll_clipboard example_cfg failing_poll example_window"
  have n: "observed failing_poll \<noteq> []"
      "last_clipboard example_window \<noteq> Some (observed failing_poll)"
    by (simp_all add: o example_window_facts)
  have first: "export_calls ?w1 = [[65]]"
    using poll_new(1) [OF example_window_facts(1) n, of example_cfg]
    by (simp add: o example_window_facts)
  let ?w2 = "toggle_clipboard_watch (?w1\<lparr>clipboard_auto := False\<rparr>)"
  let ?w3 = "toggle_clipboard_watch (?w2\<lparr>clipboard_auto := True\<rparr>)"
  have w3: "export_calls ?w3 = [[65]]" "last_clipboard ?w3 = None" "clipboard_auto ?w3"
    by (simp_all add: toggle_on toggle_off first)
  have o': "observed (poll_of '' A '' ExportSaved) = [65]"
    by (simp add: observed_examples a)
  have n3: "observed (poll_of '' A '' ExportSaved) \<noteq> []"
      "last_clipboard ?w3 \<noteq> Some (observed (poll_of '' A '' ExportSaved))"
    by (simp_all add: w3 o')
  have again: "export_calls (poll_clipboard example_cfg (poll_of '' A '' ExportSaved) ?w3)
      = [[65], [65]]"
    using poll_new(1) [OF w3(3) n3, of example_cfg] by (simp add: w3 o')
  have same: "clipboard (poll_of '' A '' ExportSaved) = clipboard failing_poll"
    by (simp add: failing_poll_def poll_of_def)
  from example_window_facts(1,2) c f first again same show ?thesis by simp
qed

text \<open>
  C10, amended: when a poll reads a new non-empty text, \<open>_export_content\<close> is called on a
  window whose snapshot already holds that text, and nothing on the way back changes
  the snapshot. So, whatever the outcome of the export (in particular when it fails),
  no later poll hands the same text to \<open>_export_content\<close> again, as long as the
  clipboard keeps giving that text and the monitor is not armed again (polls and
  clearing the check box may follow in any order). Arming the monitor again resets the
  snapshot.
\<close>

theorem failed_export_not_retried:
  assumes "clipboard_auto w" and "observed e = c" and "c \<noteq> []"
    and "last_clipboard w \<noteq> Some c" and "\<forall>a\<in>set as. keeps c a"
  shows "(\<exists>w1. last_clipboard w1 = Some c
            \<and> poll_clipboard cfg e w
                = schedule_clipboard_poll False (snd (export_content cfg e c False False w1)))
       \<and> last_clipboard (poll_clipboard cfg e w) = Some c
       \<and> export_calls (poll_clipboard cfg e w) = export_calls w @ [c]
       \<and> export_calls (run_actions cfg as (poll_clipboard cfg e w)) = export_calls w @ [c]
       \<and> last_clipboard (run_actions cfg as (poll_clipboard cfg e w)) = Some c
       \<and> (\<forall>v. last_clipboard (toggle_clipboard_watch (v\<lparr>clipboard_auto := True\<rparr>)) = None)"
proof -
  have n: "observed e \<noteq> []" "last_clipboard w \<noteq> Some (observed e)"
    using assms(2,3,4) by simp_all
  let ?w1 = "set_reply_text c (w\<lparr>clipboard_job := None, last_clipboard := Some c\<rparr>)"
  have "last_clipboard ?w1 = Some c"
    by (simp add: set_reply_text_def)
  moreover have "poll_clipboard cfg e w
      = schedule_clipboard_poll False (snd (export_content cfg e c False False ?w1))"
    using poll_new_unfold [OF assms(1) n, of cfg] assms(2) by simp
  ultimately have first: "\<exists>w1. last_clipboard w1 = Some c
      \<and> poll_clipboard cfg e w
          = schedule_clipboard_poll False (snd (export_content cfg e c False False w1))"
    by blast
  have l: "last_clipboard (poll_clipboard cfg e w) = Some c"
    and x: "export_calls (poll_clipboard cfg e w) = export_calls w @ [c]"
    using poll_new(1,2) [OF assms(1) n, of cfg] assms(2) by simp_all
  have r: "\<forall>v. last_clipboard (toggle_clipboard_watch (v\<lparr>clipboard_auto := True\<rparr>)) = None"
    by (simp add: toggle_on)
  from run_actions_unchanged [OF l assms(5), of cfg] x l first r show ?thesis
    by simp
qed

theorem failed_export_not_retried_witness:
  "clipboard_auto example_window \<and> observed failing_poll = [65]
   \<and> last_clipboard example_window \<noteq> Some [65]
   \<and> \<not> fst (export_content example_cfg failing_poll [65] False False
          (set_reply_text [65]
             (example_window\<lparr>clipboard_job := None, last_clipboard := Some [65]\<rparr>)))
   \<and> export_calls (run_actions example_cfg
        [PollTick (poll_of ''A'' ExportSaved), Toggle False, PollTick (poll_of ''A '' ExportSaved)]
        (poll_clipboard example_cfg failing_poll example_window)) = [[65]]
   \<and> last_clipboard (run_actions example_cfg
        [PollTick (poll_of ''A'' ExportSaved), Toggle False, PollTick (poll_of ''A '' ExportSaved)]
        (poll_clipboard example_cfg failing_poll example_window)) = Some [65]"
proof -
  have a: "ascii ''A'' = [65]"
    by (simp add: ascii_def)
  have h: "clipboard_auto example_window" "observed failing_poll = [65]"
      "[65] \<noteq> ([]::nat list)" "last_clipboard example_window \<noteq> Some [65]"
      "\<forall>a\<in>set [PollTick (poll_of ''A'' ExportSaved), Toggle False,
                PollTick (poll_of ''A '' ExportSaved)]. keeps [65] a"
    by (simp_all add: example_window_facts observed_examples failing_poll_def a)
  have f: "\<not> fst (export_content example_cfg failing_poll [65] False False
          (set_reply_text [65]
             (example_window\<lparr>clipboard_job := None, last_clipboard := Some [65]\<rparr>)))"
    by (simp add: export_content_def Let_def failing_poll_def poll_of_def add_effect_def
        set_reply_text_def example_window_def none_sentinel_def tag_review_def ascii_def)
  from failed_export_not_retried [OF h, of example_cfg] h f show ?thesis
    by (simp add: example_window_facts)
qed

section \<open>Properties of the prompt\<close>

lemma sentinel_not_review: "prefix tag_review r \<Longrightarrow> r \<noteq> none_sentinel"
  by (auto simp: tag_review_def none_sentinel_def)

lemma generate_prompt_no_review:
  assumes "list_input_files cfg fs (current_project w) (current_delivery w) = Inr (tagged, untagged)"
    and "filter (prefix tag_review) tagged = []"
  shows "generate_prompt cfg fs w
      = Inr (add_effect (WarningDialog msg_reminder msg_no_review) (refresh_review_combo tagged w))"
    and "prompt_display (add_effect (WarningDialog msg_reminder msg_no_review)
            (refresh_review_combo tagged w)) = prompt_display w"
  using assms
  by (simp_all add: generate_prompt_def refresh_review_combo_def build_prompt_def Let_def
      add_effect_def)

lemma generate_prompt_review:
  assumes "list_input_files cfg fs (current_project w) (current_delivery w) = Inr (tagged, untagged)"
    and "filter (prefix tag_review) tagged = r # rs"
  shows "\<exists>w'. generate_prompt cfg fs w = Inr w'
           \<and> Some (prompt_display w')
               = build_prompt (filter (prefix tag_standard) tagged)
                   (filter (prefix tag_template) tagged) r"
proof -
  have "prefix tag_review r"
    using assms(2) by (metis filter_eq_ConsD)
  then have "r \<noteq> none_sentinel" by (rule sentinel_not_review)
  then show ?thesis
    using assms
    by (simp add: generate_prompt_def refresh_review_combo_def build_prompt_def Let_def
        show_notification_def)
qed

lemma lines_join:
  "xs \<noteq> [] \<Longrightarrow>
   py_join [10] (map bullet xs) @ [10] = concat (map (\<lambda>x. [45, 32] @ x @ [10]) xs)"
  by (induction xs rule: induct_list012) (simp_all add: bullet_def ascii_def)

lemma or_none_literal: "or_none xs = (if xs = [] then [[40, 28961, 41]] else xs)"
  by (simp add: or_none_def none_sentinel_def)

lemma or_none_nonempty: "(if xs = [] then [[40, 28961, 41::nat]] else xs) \<noteq> []"
  by simp

lemma build_prompt_exact:
  assumes "tgt \<noteq> [40, 28961, 41]"
  shows "build_prompt std tpl tgt = Some ([35531, 20197, 12304, 27161, 28310, 12305, 33287, 12304, 31684, 26412, 12305, 20316,
             28858, 20381, 25818, 65292, 36880, 26781, 23529, 26597, 12304, 24453, 23529, 12305,
             25991, 20214, 65306]
           @ tgt @ [10, 10, 12304, 27161, 28310, 12305, 10]
           @ concat (map (\<lambda>x. [45, 32] @ x @ [10]) (if std = [] then [[40, 28961, 41]] else std))
           @ [10, 12304, 31684, 26412, 12305, 10]
           @ concat (map (\<lambda>x. [45, 32] @ x @ [10]) (if tpl = [] then [[40, 28961, 41]] else tpl))
           @ [10, 35531, 36664, 20986, 65306, 10,
             49, 41, 32, 19981, 31526, 21512, 20043, 34389, 10,
             50, 41, 32, 39080, 38570, 10,
             51, 41, 32, 20855, 39636, 20462, 25913, 24314, 35696, 10,
             52, 41, 32, 38656, 20154, 24037, 30906, 35469, 20107, 38917, 10])"
proof -
  let ?s = "if std = [] then [[40, 28961, 41::nat]] else std"
  let ?t = "if tpl = [] then [[40, 28961, 41::nat]] else tpl"
  have s: "py_join [10] (map bullet ?s) @ [10] = concat (map (\<lambda>x. [45, 32] @ x @ [10]) ?s)"
    by (rule lines_join) simp
  have t: "py_join [10] (map bullet ?t) @ [10] = concat (map (\<lambda>x. [45, 32] @ x @ [10]) ?t)"
    by (rule lines_join) simp
  have "build_prompt std tpl tgt
      = Some (prompt_head @ tgt @ [10, 10] @ tag_standard @ [10]
           @ (py_join [10] (map bullet ?s) @ [10]) @ [10] @ tag_template @ [10]
           @ (py_join [10] (map bullet ?t) @ [10]) @ drop 1 checklist)"
    using assms
    by (simp add: build_prompt_def none_sentinel_def or_none_literal checklist_def)
  also have "\<dots> = Some (prompt_head @ tgt @ [10, 10] @ tag_standard @ [10]
           @ concat (map (\<lambda>x. [45, 32] @ x @ [10]) ?s) @ [10] @ tag_template @ [10]
           @ concat (map (\<lambda>x. [45, 32] @ x @ [10]) ?t) @ drop 1 checklist)"
    by (simp only: s t)
  also have "\<dots> = Some ([35531, 20197, 12304, 27161, 28310, 12305, 33287, 12304, 31684, 26412, 12305, 20316,
             28858, 20381, 25818, 65292, 36880, 26781, 23529, 26597, 12304, 24453, 23529, 12305,
             25991, 20214, 65306]
           @ tgt @ [10, 10, 12304, 27161, 28310, 12305, 10]
           @ concat (map (\<lambda>x. [45, 32] @ x @ [10]) (if std = [] then [[40, 28961, 41]] else std))
           @ [10, 12304, 31684, 26412, 12305, 10]
           @ concat (map (\<lambda>x. [45, 32] @ x @ [10]) (if tpl = [] then [[40, 28961, 41]] else tpl))
           @ [10, 35531, 36664, 20986, 65306, 10,
             49, 41, 32, 19981, 31526, 21512, 20043, 34389, 10,
             50, 41, 32, 39080, 38570, 10,
             51, 41, 32, 20855, 39636, 20462, 25913, 24314, 35696, 10,
             52, 41, 32, 38656, 20154, 24037, 30906, 35469, 20107, 38917, 10])"
    by (simp add: prompt_head_def tag_standard_def tag_template_def checklist_def ascii_def)
  finally show ?thesis .
qed

lemma item_line:
  "x \<in> set xs \<Longrightarrow>
   \<exists>a b. [10] @ concat (map (\<lambda>x. [45, 32] @ x @ [10]) xs) = a @ ([10, 45, 32] @ x @ [10]) @ b"
proof (induction xs)
  case Nil
  then show ?case by simp
next
  case (Cons y ys)
  show ?case
  proof (cases "x = y")
    case True
    have "[10] @ concat (map (\<lambda>x. [45, 32] @ x @ [10]) (y # ys))
        = [] @ ([10, 45, 32] @ y @ [10]) @ concat (map (\<lambda>x. [45, 32] @ x @ [10]) ys)"
      by simp
    with True show ?thesis by blast
  next
    case False
    with Cons obtain a b where
      "[10] @ concat (map (\<lambda>x. [45, 32] @ x @ [10]) ys) = a @ ([10, 45, 32] @ x @ [10]) @ b"
      by auto
    then have "[10] @ concat (map (\<lambda>x. [45, 32] @ x @ [10]) (y # ys))
        = ([10, 45, 32] @ y @ a) @ ([10, 45, 32] @ x @ [10]) @ b"
      by simp
    then show ?thesis by blast
  qed
qed

lemma item_line_sublist:
  assumes "x \<in> set xs"
  shows "sublist ([10, 45, 32] @ x @ [10])
           (p @ [10] @ concat (map (\<lambda>x. [45, 32] @ x @ [10]) xs) @ q)"
proof -
  from item_line [OF assms] obtain a b where
    "[10] @ concat (map (\<lambda>x. [45, 32] @ x @ [10]) xs) = a @ ([10, 45, 32] @ x @ [10]) @ b"
    by blast
  then have "p @ [10] @ concat (map (\<lambda>x. [45, 32] @ x @ [10]) xs) @ q
      = (p @ a) @ ([10, 45, 32] @ x @ [10]) @ (b @ q)"
    by (metis append.assoc)
  then show ?thesis
    unfolding sublist_def by blast
qed

lemma items_end:
  "xs \<noteq> [] \<Longrightarrow> \<exists>q. concat (map (\<lambda>x. [45, 32] @ x @ [10]) xs) = q @ [10]"
proof (induction xs rule: rev_induct)
  case Nil
  then show ?case by simp
next
  case (snoc y ys)
  have "concat (map (\<lambda>x. [45, 32] @ x @ [10]) (ys @ [y]))
      = (concat (map (\<lambda>x. [45, 32] @ x @ [10]) ys) @ [45, 32] @ y) @ [10]"
    by simp
  then show ?case by blast
qed

lemma example_all_files:
  "all_files example_entries = [ascii ''b.txt'', tag_standard @ ascii ''a.txt'', ascii ''a.txt'']"
  "all_files prompt_entries = [tag_standard @ ascii ''s.pdf'', tag_review @ ascii ''r.pdf'']"
  "all_files review_entries = [tag_review @ ascii ''r.pdf'']"
  by (simp_all add: all_files_def isfile_def listdir_def example_entries_def prompt_entries_def
      review_entries_def is_skip_file_def tag_standard_def tag_review_def ascii_def
      suffix_to_prefix)

lemma example_listing:
  "list_input_files example_cfg (example_fs example_entries) (ascii ''p'') (ascii ''d'')
     = Inr ([tag_standard @ ascii ''a.txt''], [ascii ''a.txt'', ascii ''b.txt''])"
proof -
  have "list_input_files example_cfg (example_fs example_entries) (ascii ''p'') (ascii ''d'')
      = Inr (sort (filter (has_tag example_cfg) (all_files example_entries)),
             sort (filter (\<lambda>f. \<not> has_tag example_cfg f) (all_files example_entries)))"
    by (rule list_input_files_Directory [where fs = "example_fs example_entries"])
      (rule example_fs_lookup)
  also have "\<dots> = Inr ([tag_standard @ ascii ''a.txt''], [ascii ''a.txt'', ascii ''b.txt''])"
    by (simp add: example_all_files has_tag_def example_tags
        tag_standard_def tag_template_def tag_review_def ascii_def)
  finally show ?thesis .
qed

lemma prompt_listing:
  "list_input_files example_cfg (example_fs prompt_entries) (ascii ''p'') (ascii ''d'')
     = Inr ([[12304, 24453, 23529, 12305, 114, 46, 112, 100, 102],
             [12304, 27161, 28310, 12305, 115, 46, 112, 100, 102]], [])"
proof -
  have "list_input_files example_cfg (example_fs prompt_entries) (ascii ''p'') (ascii ''d'')
      = Inr (sort (filter (has_tag example_cfg) (all_files prompt_entries)),
             sort (filter (\<lambda>f. \<not> has_tag example_cfg f) (all_files prompt_entries)))"
    by (rule list_input_files_Directory [where fs = "example_fs prompt_entries"])
      (rule example_fs_lookup)
  also have "\<dots> = Inr ([[12304, 24453, 23529, 12305, 114, 46, 112, 100, 102],
             [12304, 27161, 28310, 12305, 115, 46, 112, 100, 102]], [])"
    by (simp add: example_all_files has_tag_def example_tags
        tag_standard_def tag_template_def tag_review_def ascii_def)
  finally show ?thesis .
qed

lemma review_listing:
  "list_input_files example_cfg (example_fs review_entries) (ascii ''p'') (ascii ''d'')
     = Inr ([[12304, 24453, 23529, 12305, 114, 46, 112, 100, 102]], [])"
proof -
  have "list_input_files example_cfg (example_fs review_entries) (ascii ''p'') (ascii ''d'')
      = Inr (sort (filter (has_tag example_cfg) (all_files review_entries)),
             sort (filter (\<lambda>f. \<not> has_tag example_cfg f) (all_files review_entries)))"
    by (rule list_input_files_Directory [where fs = "example_fs review_entries"])
      (rule example_fs_lookup)
  also have "\<dots> = Inr ([[12304, 24453, 23529, 12305, 114, 46, 112, 100, 102]], [])"
    by (simp add: example_all_files has_tag_def example_tags
        tag_standard_def tag_template_def tag_review_def ascii_def)
  finally show ?thesis .
qed

lemma example_window_place:
  "current_project example_window = ascii ''p''" "current_delivery example_window = ascii ''d''"
  "prompt_display example_window = []" "effects example_window = []"
  by (simp_all add: example_window_def)

text \<open>
  C7, as stated: an empty standards or templates list is shown by the literal
  placeholder \<open>(none)\<close>. The source writes the character for "none" in parentheses
  (code points 40, 28961, 41). With one review file and nothing else in the input
  directory, the prompt that \<open>generate_prompt\<close> displays holds that item twice and does
  not hold the text \<open>(none)\<close>.
\<close>

theorem prompt_placeholder_counterexample:
  "\<exists>w'. generate_prompt example_cfg (example_fs review_entries) example_window = Inr w'
      \<and> prompt_display w'
          = [35531, 20197, 12304, 27161, 28310, 12305, 33287, 12304, 31684, 26412, 12305, 20316,
          28858, 20381, 25818, 65292, 36880, 26781, 23529, 26597, 12304, 24453, 23529, 12305,
          25991, 20214, 65306]
         @ [12304, 24453, 23529, 12305, 114, 46, 112, 100, 102]
         @ [10, 10, 12304, 27161, 28310, 12305, 10]
         @ [45, 32, 40, 28961, 41, 10]
         @ [10, 12304, 31684, 26412, 12305, 10]
         @ [45, 32, 40, 28961, 41, 10]
         @ [10, 35531, 36664, 20986, 65306, 10,
          49, 41, 32, 19981, 31526, 21512, 20043, 34389, 10,
          50, 41, 32, 39080, 38570, 10,
          51, 41, 32, 20855, 39636, 20462, 25913, 24314, 35696, 10,
          52, 41, 32, 38656, 20154, 24037, 30906, 35469, 20107, 38917, 10]
      \<and> \<not> sublist (ascii ''(none)'') (prompt_display w')"
proof -
  have l: "list_input_files example_cfg (example_fs review_entries)
      (current_project example_window) (current_delivery example_window)
      = Inr ([[12304, 24453, 23529, 12305, 114, 46, 112, 100, 102]], [])"
    by (simp add: example_window_place review_listing)
  have f: "filter (prefix tag_review) [[12304, 24453, 23529, 12305, 114, 46, 112, 100, 102]]
      = [[12304, 24453, 23529, 12305, 114, 46, 112, 100, 102]]"
      "filter (prefix tag_standard) [[12304, 24453, 23529, 12305, 114, 46, 112, 100, 102]] = []"
      "filter (prefix tag_template) [[12304, 24453, 23529, 12305, 114, 46, 112, 100, 102]] = []"
    by (simp_all add: tag_review_def tag_standard_def tag_template_def)
  from generate_prompt_review [OF l f(1), unfolded f(2,3)] obtain w' where
    g: "generate_prompt example_cfg (example_fs review_entries) example_window = Inr w'"
    and d: "Some (prompt_display w') = build_prompt [] [] [12304, 24453, 23529, 12305, 114, 46, 112, 100, 102]"
    by blast
  have "[12304, 24453, 23529, 12305, 114, 46, 112, 100, 102] \<noteq> [40, 28961, (41::nat)]" by simp
  from build_prompt_exact [OF this, of "[]" "[]"] d
  have p: "prompt_display w'
      = [35531, 20197, 12304, 27161, 28310, 12305, 33287, 12304, 31684, 26412, 12305, 20316,
          28858, 20381, 25818, 65292, 36880, 26781, 23529, 26597, 12304, 24453, 23529, 12305,
          25991, 20214, 65306]
         @ [12304, 24453, 23529, 12305, 114, 46, 112, 100, 102]
         @ [10, 10, 12304, 27161, 28310, 12305, 10]
         @ [45, 32, 40, 28961, 41, 10]
         @ [10, 12304, 31684, 26412, 12305, 10]
         @ [45, 32, 40, 28961, 41, 10]
         @ [10, 35531, 36664, 20986, 65306, 10,
          49, 41, 32, 19981, 31526, 21512, 20043, 34389, 10,
          50, 41, 32, 39080, 38570, 10,
          51, 41, 32, 20855, 39636, 20462, 25913, 24314, 35696, 10,
          52, 41, 32, 38656, 20154, 24037, 30906, 35469, 20107, 38917, 10]"
    by simp
  have "110 \<notin> set (prompt_display w')"
    unfolding p by simp
  moreover have "110 \<in> set (ascii ''(none)'')"
    by (simp add: ascii_def)
  ultimately have "\<not> sublist (ascii ''(none)'') (prompt_display w')"
    using set_mono_sublist by blast
  with g p show ?thesis by blast
qed

text \<open>
  C7, amended: for a target other than the sentinel, the prompt is built. It is the
  opening sentence, the target name, the heading of the standards, one line made of
  \<open>- \<close> and the name for every standard, the heading of the templates, one such line for
  every template, and the checklist of the four requested outputs (deviations, risks,
  concrete suggestions, items that need human confirmation); an empty list is shown by
  one item, the placeholder that the source writes: the character for "none" in
  parentheses. For the sentinel no prompt is built: \<open>generate_prompt\<close> shows a warning
  dialog, returns normally and leaves the prompt display as it was. With a review file
  present, \<open>generate_prompt\<close> displays the prompt built for the first one.
\<close>

theorem build_prompt_contents:
  "(tgt \<noteq> [40, 28961, 41] \<longrightarrow>
      (\<exists>p. build_prompt std tpl tgt = Some p
          \<and> p = [35531, 20197, 12304, 27161, 28310, 12305, 33287, 12304, 31684, 26412, 12305, 20316,
             28858, 20381, 25818, 65292, 36880, 26781, 23529, 26597, 12304, 24453, 23529, 12305,
             25991, 20214, 65306]
           @ tgt @ [10, 10, 12304, 27161, 28310, 12305, 10]
           @ concat (map (\<lambda>x. [45, 32] @ x @ [10]) (if std = [] then [[40, 28961, 41]] else std))
           @ [10, 12304, 31684, 26412, 12305, 10]
           @ concat (map (\<lambda>x. [45, 32] @ x @ [10]) (if tpl = [] then [[40, 28961, 41]] else tpl))
           @ [10, 35531, 36664, 20986, 65306, 10,
             49, 41, 32, 19981, 31526, 21512, 20043, 34389, 10,
             50, 41, 32, 39080, 38570, 10,
             51, 41, 32, 20855, 39636, 20462, 25913, 24314, 35696, 10,
             52, 41, 32, 38656, 20154, 24037, 30906, 35469, 20107, 38917, 10]
          \<and> sublist tgt p
          \<and> (\<forall>x\<in>set std. sublist ([10, 45, 32] @ x @ [10]) p)
          \<and> (\<forall>x\<in>set tpl. sublist ([10, 45, 32] @ x @ [10]) p)
          \<and> (std = [] \<longrightarrow> sublist [12304, 27161, 28310, 12305, 10, 45, 32, 40, 28961, 41, 10,
                          10, 12304, 31684, 26412, 12305, 10] p)
          \<and> (tpl = [] \<longrightarrow> sublist [12304, 31684, 26412, 12305, 10, 45, 32, 40, 28961, 41, 10,
                          10, 35531, 36664, 20986, 65306, 10] p)
          \<and> suffix [10, 10, 35531, 36664, 20986, 65306, 10,
             49, 41, 32, 19981, 31526, 21512, 20043, 34389, 10,
             50, 41, 32, 39080, 38570, 10,
             51, 41, 32, 20855, 39636, 20462, 25913, 24314, 35696, 10,
             52, 41, 32, 38656, 20154, 24037, 30906, 35469, 20107, 38917, 10] p))
   \<and> build_prompt std tpl [40, 28961, 41] = None
   \<and> (list_input_files cfg fs (current_project w) (current_delivery w) = Inr (tagged, untagged) \<longrightarrow>
        (filter (prefix [12304, 24453, 23529, 12305]) tagged = [] \<longrightarrow>
           (\<exists>w'. generate_prompt cfg fs w = Inr w'
               \<and> prompt_display w' = prompt_display w
               \<and> effects w' = effects w @ [WarningDialog [25552, 37266] [27794, 26377, 24453, 23529, 27284, 26696]]))
      \<and> (\<forall>r rs. filter (prefix [12304, 24453, 23529, 12305]) tagged = r # rs \<longrightarrow>
           (\<exists>w'. generate_prompt cfg fs w = Inr w'
               \<and> Some (prompt_display w')
                   = build_prompt (filter (prefix [12304, 27161, 28310, 12305]) tagged)
                       (filter (prefix [12304, 31684, 26412, 12305]) tagged) r)))"
proof (intro conjI impI)
  assume t: "tgt \<noteq> [40, 28961, 41]"
  let ?s = "if std = [] then [[40, 28961, 41::nat]] else std"
  let ?t = "if tpl = [] then [[40, 28961, 41::nat]] else tpl"
  let ?H = "[35531, 20197, 12304, 27161, 28310, 12305, 33287, 12304, 31684, 26412, 12305, 20316,
             28858, 20381, 25818, 65292, 36880, 26781, 23529, 26597, 12304, 24453, 23529, 12305,
             25991, 20214, 65306]"
  let ?C = "[10, 35531, 36664, 20986, 65306, 10,
             49, 41, 32, 19981, 31526, 21512, 20043, 34389, 10,
             50, 41, 32, 39080, 38570, 10,
             51, 41, 32, 20855, 39636, 20462, 25913, 24314, 35696, 10,
             52, 41, 32, 38656, 20154, 24037, 30906, 35469, 20107, 38917, 10]"
  let ?p = "?H @ tgt @ [10, 10, 12304, 27161, 28310, 12305, 10]
      @ concat (map (\<lambda>x. [45, 32] @ x @ [10]) ?s)
      @ [10, 12304, 31684, 26412, 12305, 10]
      @ concat (map (\<lambda>x. [45, 32] @ x @ [10]) ?t)
      @ ?C"
  have b: "build_prompt std tpl tgt = Some ?p"
    using t by (rule build_prompt_exact)
  have tg: "sublist tgt ?p"
    by (rule sublist_appendI)
  have s1: "\<forall>x\<in>set std. sublist ([10, 45, 32] @ x @ [10]) ?p"
  proof
    fix x assume x: "x \<in> set std"
    then have "x \<in> set ?s" by auto
    then have "sublist ([10, 45, 32] @ x @ [10])
        ((?H @ tgt @ [10, 10, 12304, 27161, 28310, 12305]) @ [10]
          @ concat (map (\<lambda>x. [45, 32] @ x @ [10]) ?s)
          @ ([10, 12304, 31684, 26412, 12305, 10]
             @ concat (map (\<lambda>x. [45, 32] @ x @ [10]) ?t) @ ?C))"
      by (rule item_line_sublist)
    then show "sublist ([10, 45, 32] @ x @ [10]) ?p" by simp
  qed
  have s2: "\<forall>x\<in>set tpl. sublist ([10, 45, 32] @ x @ [10]) ?p"
  proof
    fix x assume x: "x \<in> set tpl"
    then have "x \<in> set ?t" by auto
    then have "sublist ([10, 45, 32] @ x @ [10])
        ((?H @ tgt @ [10, 10, 12304, 27161, 28310, 12305, 10]
          @ concat (map (\<lambda>x. [45, 32] @ x @ [10]) ?s)
          @ [10, 12304, 31684, 26412, 12305]) @ [10]
          @ concat (map (\<lambda>x. [45, 32] @ x @ [10]) ?t) @ ?C)"
      by (rule item_line_sublist)
    then show "sublist ([10, 45, 32] @ x @ [10]) ?p" by simp
  qed
  have e1: "std = [] \<longrightarrow> sublist [12304, 27161, 28310, 12305, 10, 45, 32, 40, 28961, 41, 10,
                          10, 12304, 31684, 26412, 12305, 10] ?p"
  proof
    assume "std = []"
    then have "?p = (?H @ tgt @ [10, 10])
        @ [12304, 27161, 28310, 12305, 10, 45, 32, 40, 28961, 41, 10,
                          10, 12304, 31684, 26412, 12305, 10]
        @ (concat (map (\<lambda>x. [45, 32] @ x @ [10]) ?t) @ ?C)"
      by simp
    then show "sublist [12304, 27161, 28310, 12305, 10, 45, 32, 40, 28961, 41, 10,
                          10, 12304, 31684, 26412, 12305, 10] ?p"
      unfolding sublist_def by blast
  qed
  have e2: "tpl = [] \<longrightarrow> sublist [12304, 31684, 26412, 12305, 10, 45, 32, 40, 28961, 41, 10,
                          10, 35531, 36664, 20986, 65306, 10] ?p"
  proof
    assume "tpl = []"
    then have "?p = (?H @ tgt @ [10, 10, 12304, 27161, 28310, 12305, 10]
          @ concat (map (\<lambda>x. [45, 32] @ x @ [10]) ?s) @ [10])
        @ [12304, 31684, 26412, 12305, 10, 45, 32, 40, 28961, 41, 10,
                          10, 35531, 36664, 20986, 65306, 10]
        @ drop 6 ?C"
      by simp
    then show "sublist [12304, 31684, 26412, 12305, 10, 45, 32, 40, 28961, 41, 10,
                          10, 35531, 36664, 20986, 65306, 10] ?p"
      unfolding sublist_def by blast
  qed
  have c: "suffix [10, 10, 35531, 36664, 20986, 65306, 10,
             49, 41, 32, 19981, 31526, 21512, 20043, 34389, 10,
             50, 41, 32, 39080, 38570, 10,
             51, 41, 32, 20855, 39636, 20462, 25913, 24314, 35696, 10,
             52, 41, 32, 38656, 20154, 24037, 30906, 35469, 20107, 38917, 10] ?p"
  proof -
    have "?t \<noteq> []" by simp
    then have "\<exists>q. concat (map (\<lambda>x. [45, 32] @ x @ [10]) ?t) = q @ [10]"
      by (rule items_end)
    then obtain q where "concat (map (\<lambda>x. [45, 32] @ x @ [10]) ?t) = q @ [10]"
      by blast
    then have "?p = (?H @ tgt @ [10, 10, 12304, 27161, 28310, 12305, 10]
          @ concat (map (\<lambda>x. [45, 32] @ x @ [10]) ?s)
          @ [10, 12304, 31684, 26412, 12305, 10] @ q)
        @ [10, 10, 35531, 36664, 20986, 65306, 10,
             49, 41, 32, 19981, 31526, 21512, 20043, 34389, 10,
             50, 41, 32, 39080, 38570, 10,
             51, 41, 32, 20855, 39636, 20462, 25913, 24314, 35696, 10,
             52, 41, 32, 38656, 20154, 24037, 30906, 35469, 20107, 38917, 10]"
      by simp
    then show ?thesis
      unfolding suffix_def by blast
  qed
  from b tg s1 s2 e1 e2 c
  show "\<exists>p. build_prompt std tpl tgt = Some p
          \<and> p = [35531, 20197, 12304, 27161, 28310, 12305, 33287, 12304, 31684, 26412, 12305, 20316,
             28858, 20381, 25818, 65292, 36880, 26781, 23529, 26597, 12304, 24453, 23529, 12305,
             25991, 20214, 65306]
           @ tgt @ [10, 10, 12304, 27161, 28310, 12305, 10]
           @ concat (map (\<lambda>x. [45, 32] @ x @ [10]) (if std = [] then [[40, 28961, 41]] else std))
           @ [10, 12304, 31684, 26412, 12305, 10]
           @ concat (map (\<lambda>x. [45, 32] @ x @ [10]) (if tpl = [] then [[40, 28961, 41]] else tpl))
           @ [10, 35531, 36664, 20986, 65306, 10,
             49, 41, 32, 19981, 31526, 21512, 20043, 34389, 10,
             50, 41, 32, 39080, 38570, 10,
             51, 41, 32, 20855, 39636, 20462, 25913, 24314, 35696, 10,
             52, 41, 32, 38656, 20154, 24037, 30906, 35469, 20107, 38917, 10]
          \<and> sublist tgt p
          \<and> (\<forall>x\<in>set std. sublist ([10, 45, 32] @ x @ [10]) p)
          \<and> (\<forall>x\<in>set tpl. sublist ([10, 45, 32] @ x @ [10]) p)
          \<and> (std = [] \<longrightarrow> sublist [12304, 27161, 28310, 12305, 10, 45, 32, 40, 28961, 41, 10,
                          10, 12304, 31684, 26412, 12305, 10] p)
          \<and> (tpl = [] \<longrightarrow> sublist [12304, 31684, 26412, 12305, 10, 45, 32, 40, 28961, 41, 10,
                          10, 35531, 36664, 20986, 65306, 10] p)
          \<and> suffix [10, 10, 35531, 36664, 20986, 65306, 10,
             49, 41, 32, 19981, 31526, 21512, 20043, 34389, 10,
             50, 41, 32, 39080, 38570, 10,
             51, 41, 32, 20855, 39636, 20462, 25913, 24314, 35696, 10,
             52, 41, 32, 38656, 20154, 24037, 30906, 35469, 20107, 38917, 10] p"
    by blast
next
  show "build_prompt std tpl [40, 28961, 41] = None"
    by (simp add: build_prompt_def none_sentinel_def)
next
  assume l: "list_input_files cfg fs (current_project w) (current_delivery w) = Inr (tagged, untagged)"
    and n: "filter (prefix [12304, 24453, 23529, 12305]) tagged = []"
  have n': "filter (prefix tag_review) tagged = []"
    using n by (simp add: tag_review_def)
  have "generate_prompt cfg fs w
      = Inr (add_effect (WarningDialog [25552, 37266] [27794, 26377, 24453, 23529, 27284, 26696]) (refresh_review_combo tagged w))"
    using generate_prompt_no_review(1) [OF l n']
    by (simp add: msg_reminder_def msg_no_review_def)
  moreover have "prompt_display (add_effect (WarningDialog [25552, 37266] [27794, 26377, 24453, 23529, 27284, 26696]) (refresh_review_combo tagged w))
      = prompt_display w"
    using generate_prompt_no_review(2) [OF l n']
    by (simp add: msg_reminder_def msg_no_review_def)
  moreover have "effects (add_effect (WarningDialog [25552, 37266] [27794, 26377, 24453, 23529, 27284, 26696]) (refresh_review_combo tagged w))
      = effects w @ [WarningDialog [25552, 37266] [27794, 26377, 24453, 23529, 27284, 26696]]"
    by (simp add: add_effect_def refresh_review_combo_def split: list.splits)
  ultimately show "\<exists>w'. generate_prompt cfg fs w = Inr w'
               \<and> prompt_display w' = prompt_display w
               \<and> effects w' = effects w @ [WarningDialog [25552, 37266] [27794, 26377, 24453, 23529, 27284, 26696]]"
    by simp
next
  assume l: "list_input_files cfg fs (current_project w) (current_delivery w) = Inr (tagged, untagged)"
  show "\<forall>r rs. filter (prefix [12304, 24453, 23529, 12305]) tagged = r # rs \<longrightarrow>
           (\<exists>w'. generate_prompt cfg fs w = Inr w'
               \<and> Some (prompt_display w')
                   = build_prompt (filter (prefix [12304, 27161, 28310, 12305]) tagged)
                       (filter (prefix [12304, 31684, 26412, 12305]) tagged) r)"
    using generate_prompt_review [OF l]
    by (simp add: tag_review_def tag_standard_def tag_template_def)
qed

theorem build_prompt_contents_witness:
  "[12304, 24453, 23529, 12305, 114, 46, 112, 100, 102] \<noteq> [40, 28961, (41::nat)]
   \<and> build_prompt [[12304, 27161, 28310, 12305, 115, 46, 112, 100, 102]] []
        [12304, 24453, 23529, 12305, 114, 46, 112, 100, 102]
       = Some ([35531, 20197, 12304, 27161, 28310, 12305, 33287, 12304, 31684, 26412, 12305, 20316,
          28858, 20381, 25818, 65292, 36880, 26781, 23529, 26597, 12304, 24453, 23529, 12305,
          25991, 20214, 65306]
         @ [12304, 24453, 23529, 12305, 114, 46, 112, 100, 102]
         @ [10, 10, 12304, 27161, 28310, 12305, 10]
         @ [45, 32] @ [12304, 27161, 28310, 12305, 115, 46, 112, 100, 102] @ [10]
         @ [10, 12304, 31684, 26412, 12305, 10]
         @ [45, 32, 40, 28961, 41, 10]
         @ [10, 35531, 36664, 20986, 65306, 10,
          49, 41, 32, 19981, 31526, 21512, 20043, 34389, 10,
          50, 41, 32, 39080, 38570, 10,
          51, 41, 32, 20855, 39636, 20462, 25913, 24314, 35696, 10,
          52, 41, 32, 38656, 20154, 24037, 30906, 35469, 20107, 38917, 10])
   \<and> list_input_files example_cfg (example_fs prompt_entries)
        (current_project example_window) (current_delivery example_window)
       = Inr ([[12304, 24453, 23529, 12305, 114, 46, 112, 100, 102], [12304, 27161, 28310, 12305, 115, 46, 112, 100, 102]], [])
   \<and> (\<exists>w'. generate_prompt example_cfg (example_fs prompt_entries) example_window = Inr w'
         \<and> prompt_display w'
             = [35531, 20197, 12304, 27161, 28310, 12305, 33287, 12304, 31684, 26412, 12305, 20316,
          28858, 20381, 25818, 65292, 36880, 26781, 23529, 26597, 12304, 24453, 23529, 12305,
          25991, 20214, 65306]
         @ [12304, 24453, 23529, 12305, 114, 46, 112, 100, 102]
         @ [10, 10, 12304, 27161, 28310, 12305, 10]
         @ [45, 32] @ [12304, 27161, 28310, 12305, 115, 46, 112, 100, 102] @ [10]
         @ [10, 12304, 31684, 26412, 12305, 10]
         @ [45, 32, 40, 28961, 41, 10]
         @ [10, 35531, 36664, 20986, 65306, 10,
          49, 41, 32, 19981, 31526, 21512, 20043, 34389, 10,
          50, 41, 32, 39080, 38570, 10,
          51, 41, 32, 20855, 39636, 20462, 25913, 24314, 35696, 10,
          52, 41, 32, 38656, 20154, 24037, 30906, 35469, 20107, 38917, 10])
   \<and> list_input_files example_cfg (example_fs example_entries)
        (current_project example_window) (current_delivery example_window)
       = Inr ([tag_standard @ ascii ''a.txt''], [ascii ''a.txt'', ascii ''b.txt''])
   \<and> (\<exists>w'. generate_prompt example_cfg (example_fs example_entries) example_window = Inr w'
         \<and> prompt_display w' = []
         \<and> effects w' = [WarningDialog [25552, 37266] [27794, 26377, 24453, 23529, 27284, 26696]])"
proof -
  have t: "[12304, 24453, 23529, 12305, 114, 46, 112, 100, 102] \<noteq> [40, 28961, (41::nat)]" by simp
  have l: "list_input_files example_cfg (example_fs prompt_entries)
        (current_project example_window) (current_delivery example_window)
       = Inr ([[12304, 24453, 23529, 12305, 114, 46, 112, 100, 102], [12304, 27161, 28310, 12305, 115, 46, 112, 100, 102]], [])"
    by (simp add: example_window_place prompt_listing)
  have l0: "list_input_files example_cfg (example_fs example_entries)
        (current_project example_window) (current_delivery example_window)
       = Inr ([tag_standard @ ascii ''a.txt''], [ascii ''a.txt'', ascii ''b.txt''])"
    by (simp add: example_window_place example_listing)
  note T = build_prompt_contents [of "[12304, 24453, 23529, 12305, 114, 46, 112, 100, 102]" "[[12304, 27161, 28310, 12305, 115, 46, 112, 100, 102]]" "[]"
      example_cfg "example_fs prompt_entries" example_window
      "[[12304, 24453, 23529, 12305, 114, 46, 112, 100, 102], [12304, 27161, 28310, 12305, 115, 46, 112, 100, 102]]" "[]"]
  note T0 = build_prompt_contents [of "[12304, 24453, 23529, 12305, 114, 46, 112, 100, 102]" "[[12304, 27161, 28310, 12305, 115, 46, 112, 100, 102]]" "[]"
      example_cfg "example_fs example_entries" example_window
      "[tag_standard @ ascii ''a.txt'']" "[ascii ''a.txt'', ascii ''b.txt'']"]
  have b: "build_prompt [[12304, 27161, 28310, 12305, 115, 46, 112, 100, 102]] [] [12304, 24453, 23529, 12305, 114, 46, 112, 100, 102]
       = Some ([35531, 20197, 12304, 27161, 28310, 12305, 33287, 12304, 31684, 26412, 12305, 20316,
          28858, 20381, 25818, 65292, 36880, 26781, 23529, 26597, 12304, 24453, 23529, 12305,
          25991, 20214, 65306]
         @ [12304, 24453, 23529, 12305, 114, 46, 112, 100, 102]
         @ [10, 10, 12304, 27161, 28310, 12305, 10]
         @ [45, 32] @ [12304, 27161, 28310, 12305, 115, 46, 112, 100, 102] @ [10]
         @ [10, 12304, 31684, 26412, 12305, 10]
         @ [45, 32, 40, 28961, 41, 10]
         @ [10, 35531, 36664, 20986, 65306, 10,
          49, 41, 32, 19981, 31526, 21512, 20043, 34389, 10,
          50, 41, 32, 39080, 38570, 10,
          51, 41, 32, 20855, 39636, 20462, 25913, 24314, 35696, 10,
          52, 41, 32, 38656, 20154, 24037, 30906, 35469, 20107, 38917, 10])"
    using T [THEN conjunct1] t by auto
  have "\<exists>w'. generate_prompt example_cfg (example_fs prompt_entries) example_window = Inr w'
         \<and> Some (prompt_display w') = build_prompt [[12304, 27161, 28310, 12305, 115, 46, 112, 100, 102]] [] [12304, 24453, 23529, 12305, 114, 46, 112, 100, 102]"
    using T [THEN conjunct2, THEN conjunct2, rule_format, OF l, THEN conjunct2, rule_format,
        of "[12304, 24453, 23529, 12305, 114, 46, 112, 100, 102]" "[]"]
    by simp
  with b have g: "\<exists>w'. generate_prompt example_cfg (example_fs prompt_entries) example_window = Inr w'
         \<and> prompt_display w'
             = [35531, 20197, 12304, 27161, 28310, 12305, 33287, 12304, 31684, 26412, 12305, 20316,
          28858, 20381, 25818, 65292, 36880, 26781, 23529, 26597, 12304, 24453, 23529, 12305,
          25991, 20214, 65306]
         @ [12304, 24453, 23529, 12305, 114, 46, 112, 100, 102]
         @ [10, 10, 12304, 27161, 28310, 12305, 10]
         @ [45, 32] @ [12304, 27161, 28310, 12305, 115, 46, 112, 100, 102] @ [10]
         @ [10, 12304, 31684, 26412, 12305, 10]
         @ [45, 32, 40, 28961, 41, 10]
         @ [10, 35531, 36664, 20986, 65306, 10,
          49, 41, 32, 19981, 31526, 21512, 20043, 34389, 10,
          50, 41, 32, 39080, 38570, 10,
          51, 41, 32, 20855, 39636, 20462, 25913, 24314, 35696, 10,
          52, 41, 32, 38656, 20154, 24037, 30906, 35469, 20107, 38917, 10]"
    by auto
  have "filter (prefix [12304, 24453, 23529, 12305]) [tag_standard @ ascii ''a.txt''] = []"
    by (simp add: tag_standard_def)
  with T0 [THEN conjunct2, THEN conjunct2, rule_format, OF l0, THEN conjunct1]
  have g0: "\<exists>w'. generate_prompt example_cfg (example_fs example_entries) example_window = Inr w'
         \<and> prompt_display w' = []
         \<and> effects w' = [WarningDialog [25552, 37266] [27794, 26377, 24453, 23529, 27284, 26696]]"
    by (simp add: example_window_place)
  from t b l g l0 g0 show ?thesis by blast
qed

end
